theory Spec2Isabelle
  imports Complex_Main
begin


section \<open>JavaScript values\<close>

text \<open>
  A JavaScript number is an IEEE double. The model keeps the three non-finite values apart
  and idealises the finite ones as reals (no rounding error).
\<close>

datatype jsnum = Fin real | NaN | PosInf | NegInf

text \<open>A value that an untyped call may also leave \<open>null\<close> or \<open>undefined\<close>.\<close>

datatype 'a nullable = Undefined | Null | Val 'a

text \<open>The operator \<open>a ?? d\<close>: only \<open>null\<close> and \<open>undefined\<close> give the default.\<close>

fun coalesce :: "'a nullable \<Rightarrow> 'a \<Rightarrow> 'a" where
  "coalesce Undefined d = d"
| "coalesce Null d = d"
| "coalesce (Val v) d = v"

text \<open>The payload handed to the importer (\<open>payload: any\<close>): an arbitrary JSON-like value.\<close>

datatype json =
    JUndefined
  | JNull
  | JBool bool
  | JNum jsnum
  | JStr string
  | JArr "json list"
  | JObj "(string \<times> json) list"

text \<open>\<open>!payload\<close> is the negation of JavaScript's ToBoolean.\<close>

fun truthy :: "json \<Rightarrow> bool" where
  "truthy JUndefined = False"
| "truthy JNull = False"
| "truthy (JBool b) = b"
| "truthy (JNum (Fin r)) = (r \<noteq> 0)"
| "truthy (JNum NaN) = False"
| "truthy (JNum PosInf) = True"
| "truthy (JNum NegInf) = True"
| "truthy (JStr s) = (s \<noteq> [])"
| "truthy (JArr js) = True"
| "truthy (JObj fs) = True"

text \<open>\<open>typeof v === 'object'\<close>: objects, arrays and \<open>null\<close>.\<close>

fun typeofObject :: "json \<Rightarrow> bool" where
  "typeofObject JNull = True"
| "typeofObject (JArr js) = True"
| "typeofObject (JObj fs) = True"
| "typeofObject v = False"

text \<open>
  Property access \<open>payload.k\<close> for the keys the importer reads (\<open>version\<close>, \<open>draw\<close>,
  \<open>labels\<close>, \<open>text\<close>): an absent key, and any of these keys on an array, is \<open>undefined\<close>.
\<close>

fun field :: "json \<Rightarrow> string \<Rightarrow> json" where
  "field (JObj fs) k = (case map_of fs k of Some v \<Rightarrow> v | None \<Rightarrow> JUndefined)"
| "field v k = JUndefined"

text \<open>\<open>v ?? d\<close> on payload values.\<close>

fun orDefault :: "json \<Rightarrow> json \<Rightarrow> json" where
  "orDefault JUndefined d = d"
| "orDefault JNull d = d"
| "orDefault v d = v"


section \<open>ExportService\<close>

record 'g import_result =
  res_draw :: "'g list"
  res_labels :: "'g list"
  res_text :: "'g list"

text \<open>\<open>throw new Error(`Unsupported export version: ${version}`)\<close>, carrying the version read.\<close>

datatype import_error = UnsupportedVersion json

text \<open>\<open>Array.isArray(a) ? a.map((j) => Graphic.fromJSON(j)) : []\<close>\<close>

fun parseGraphics :: "(json \<Rightarrow> 'g) \<Rightarrow> json \<Rightarrow> 'g list" where
  "parseGraphics fromJSON (JArr js) = map fromJSON js"
| "parseGraphics fromJSON v = []"

text \<open>
  \<open>ExportService.importEsriJson\<close>. \<open>Graphic.fromJSON\<close> belongs to the ArcGIS library and is
  a parameter. \<open>version === 1\<close> and \<open>version !== 2\<close> are strict comparisons with a number.
\<close>

definition importEsriJson :: "(json \<Rightarrow> 'g) \<Rightarrow> json \<Rightarrow> import_error + 'g import_result" where
  "importEsriJson fromJSON payload =
     (if \<not> truthy payload \<or> \<not> typeofObject payload then
        Inr \<lparr>res_draw = [], res_labels = [], res_text = []\<rparr>
      else
        let version = orDefault (field payload ''version'') (JNum (Fin 1)) in
        if version = JNum (Fin 1) then
          Inr \<lparr>res_draw = parseGraphics fromJSON (field payload ''draw''),
               res_labels = parseGraphics fromJSON (field payload ''labels''),
               res_text = []\<rparr>
        else if version \<noteq> JNum (Fin 2) then
          Inl (UnsupportedVersion version)
        else
          Inr \<lparr>res_draw = parseGraphics fromJSON (field payload ''draw''),
               res_labels = parseGraphics fromJSON (field payload ''labels''),
               res_text = parseGraphics fromJSON (field payload ''text'')\<rparr>)"

text \<open>\<open>ExportService.exportEsriJson\<close>: always version 2; \<open>toJSON\<close> is the library's.\<close>

definition exportEsriJson :: "('g \<Rightarrow> json) \<Rightarrow> 'g list \<Rightarrow> 'g list \<Rightarrow> 'g list \<Rightarrow> json" where
  "exportEsriJson toJSON drawGs labelGs textGs =
     JObj [(''version'', JNum (Fin 2)),
           (''draw'', JArr (map toJSON drawGs)),
           (''labels'', JArr (map toJSON labelGs)),
           (''text'', JArr (map toJSON textGs))]"


section \<open>Exceptions\<close>

text \<open>
  A thrown JavaScript error, by its message. A call that can throw returns a sum: \<open>Inl\<close>
  the error thrown, \<open>Inr\<close> the value returned.
\<close>

datatype jsError = JsError string

text \<open>Sequencing: the first error ends the computation.\<close>

definition bindE :: "jsError + 'a \<Rightarrow> ('a \<Rightarrow> jsError + 'b) \<Rightarrow> jsError + 'b" where
  "bindE m f = (case m of Inl e \<Rightarrow> Inl e | Inr a \<Rightarrow> f a)"

text \<open>A loop that collects one result per element, from left to right.\<close>

fun mapE :: "('a \<Rightarrow> jsError + 'b) \<Rightarrow> 'a list \<Rightarrow> jsError + 'b list" where
  "mapE f [] = Inr []"
| "mapE f (x # xs) = bindE (f x) (\<lambda>y. bindE (mapE f xs) (\<lambda>ys. Inr (y # ys)))"

text \<open>A loop that keeps the elements passing a test that can throw.\<close>

fun filterE :: "('a \<Rightarrow> jsError + bool) \<Rightarrow> 'a list \<Rightarrow> jsError + 'a list" where
  "filterE p [] = Inr []"
| "filterE p (x # xs) =
     bindE (p x) (\<lambda>b. bindE (filterE p xs) (\<lambda>ys. Inr (if b then x # ys else ys)))"


section \<open>Geometry and the external collaborators\<close>

text \<open>A vertex \<open>[x, y]\<close>; coordinates are finite numbers.\<close>

type_synonym coord = "real \<times> real"

text \<open>
  The three geometry classes the service distinguishes with \<open>instanceof\<close>: a point, a
  polyline with its paths, a polygon with its rings. The spatial reference is only passed
  through to the library and is left out.
\<close>

datatype geometry = Point coord | Polyline "coord list list" | Polygon "coord list list"

fun isPolyline :: "geometry \<Rightarrow> bool" where
  "isPolyline (Polyline ps) = True"
| "isPolyline g = False"

fun isPolygon :: "geometry \<Rightarrow> bool" where
  "isPolygon (Polygon rs) = True"
| "isPolygon g = False"

fun isPoint :: "geometry \<Rightarrow> bool" where
  "isPoint (Point p) = True"
| "isPoint g = False"

text \<open>
  What the code asks of the ArcGIS library, the view and the JavaScript runtime, taken as
  parameters. The geometry engine's results are typed \<open>number\<close> and guarded with \<open>??\<close> in
  the code; a call of the engine, and \<open>Number.toFixed\<close>, can also throw. The geometry
  properties \<open>centroid\<close> and \<open>extent.center\<close> are plain reads. The view's projections give
  \<open>None\<close> for a null result or an exception (\<open>offsetPoint\<close> catches it). The identifier has
  two sources: the \<open>k\<close>-th reading of \<open>Date.now()\<close> and of \<open>Math.random().toString(36)\<close>.
\<close>

record env =
  engGeodesicLength :: "geometry \<Rightarrow> string \<Rightarrow> jsError + jsnum nullable"
  engGeodesicArea :: "geometry \<Rightarrow> string \<Rightarrow> jsError + jsnum nullable"
  engPlanarArea :: "geometry \<Rightarrow> string \<Rightarrow> jsError + jsnum nullable"
  engDistance :: "coord \<Rightarrow> coord \<Rightarrow> string \<Rightarrow> jsError + jsnum nullable"
  engIntersects :: "geometry \<Rightarrow> geometry \<Rightarrow> jsError + bool"
  geomCentroid :: "geometry \<Rightarrow> coord option"
  geomExtentCenter :: "geometry \<Rightarrow> coord option"
  viewToScreen :: "coord \<Rightarrow> coord option"
  viewToMap :: "coord \<Rightarrow> coord option"
  toFixed :: "jsnum \<Rightarrow> int \<Rightarrow> jsError + string"
  dateNow :: "nat \<Rightarrow> nat"
  random36 :: "nat \<Rightarrow> string"


section \<open>MeasurementService\<close>

text \<open>The service's fields, set by \<open>setUnits\<close>; defaults metres, square metres, 2 decimals.\<close>

record units =
  lengthUnit :: string
  areaUnit :: string
  decimals :: int

definition defaultUnits :: units where
  "defaultUnits = \<lparr>lengthUnit = ''meters'', areaUnit = ''square-meters'', decimals = 2\<rparr>"

text \<open>
  \<open>geodesicLength(geom)\<close>: \<open>geometryEngine.geodesicLength(geom, this.lengthUnit) ?? 0\<close>.
  There is no \<open>try\<close> around the call: what the engine throws, the function throws.
\<close>

definition geodesicLength :: "env \<Rightarrow> units \<Rightarrow> geometry \<Rightarrow> jsError + jsnum" where
  "geodesicLength E M geom =
     bindE (engGeodesicLength E geom (lengthUnit M)) (\<lambda>v. Inr (coalesce v (Fin 0)))"

text \<open>\<open>geodesicPerimeter(geom)\<close>: the rings become the paths of a polyline.\<close>

fun ringsOf :: "geometry \<Rightarrow> coord list list" where
  "ringsOf (Polygon rs) = rs"
| "ringsOf g = []"

definition geodesicPerimeter :: "env \<Rightarrow> units \<Rightarrow> geometry \<Rightarrow> jsError + jsnum" where
  "geodesicPerimeter E M geom = geodesicLength E M (Polyline (ringsOf geom))"

text \<open>
  The global \<open>isFinite(v)\<close> converts first: \<open>undefined\<close> becomes NaN and \<open>null\<close> becomes 0.
\<close>

fun isFiniteJs :: "jsnum nullable \<Rightarrow> bool" where
  "isFiniteJs (Val (Fin r)) = True"
| "isFiniteJs Null = True"
| "isFiniteJs v = False"

definition geodesicArea :: "env \<Rightarrow> units \<Rightarrow> geometry \<Rightarrow> jsError + jsnum" where
  "geodesicArea E M geom =
     bindE (engGeodesicArea E geom (areaUnit M)) (\<lambda>v.
       if \<not> isFiniteJs v \<or> v = Val (Fin 0) then
         bindE (engPlanarArea E geom (areaUnit M)) (\<lambda>p. Inr (coalesce p (Fin 0)))
       else Inr (coalesce v (Fin 0)))"

text \<open>\<open>radiusFromPolygon(geom)\<close>: centroid to the first vertex of the first ring.\<close>

definition radiusFromPolygon :: "env \<Rightarrow> units \<Rightarrow> geometry \<Rightarrow> jsError + jsnum" where
  "radiusFromPolygon E M geom =
     (case geomCentroid E geom of
        None \<Rightarrow> Inr (Fin 0)
      | Some center \<Rightarrow>
          (case ringsOf geom of
             [] \<Rightarrow> Inr (Fin 0)
           | ring0 # rest \<Rightarrow>
               (case ring0 of
                  [] \<Rightarrow> Inr (Fin 0)
                | v0 # vs \<Rightarrow>
                    bindE (engDistance E center v0 (lengthUnit M)) (\<lambda>d. Inr (coalesce d (Fin 0))))))"

text \<open>\<open>Math.abs(val) >= k\<close> and \<open>val / k\<close> for a positive constant \<open>k\<close>.\<close>

fun absGe :: "jsnum \<Rightarrow> real \<Rightarrow> bool" where
  "absGe (Fin r) k = (\<bar>r\<bar> \<ge> k)"
| "absGe NaN k = False"
| "absGe PosInf k = True"
| "absGe NegInf k = True"

fun divBy :: "jsnum \<Rightarrow> real \<Rightarrow> jsnum" where
  "divBy (Fin r) k = Fin (r / k)"
| "divBy v k = v"

definition formatLength :: "env \<Rightarrow> units \<Rightarrow> jsnum \<Rightarrow> jsError + string" where
  "formatLength E M val =
     (if lengthUnit M = ''meters'' then
        (if absGe val 1000
         then bindE (toFixed E (divBy val 1000) (decimals M)) (\<lambda>t. Inr (t @ '' km''))
         else bindE (toFixed E val (decimals M)) (\<lambda>t. Inr (t @ '' m'')))
      else bindE (toFixed E val (decimals M)) (\<lambda>t. Inr (t @ '' '' @ lengthUnit M)))"

text \<open>The superscript two of the area suffixes, as its two UTF-8 bytes.\<close>

definition sup2 :: string where
  "sup2 = [CHR 0xC2, CHR 0xB2]"

definition formatArea :: "env \<Rightarrow> units \<Rightarrow> jsnum \<Rightarrow> jsError + string" where
  "formatArea E M val =
     (if areaUnit M = ''square-meters'' then
        (if absGe val 1000000
         then bindE (toFixed E (divBy val 1000000) (decimals M)) (\<lambda>t. Inr (t @ '' km'' @ sup2))
         else bindE (toFixed E val (decimals M)) (\<lambda>t. Inr (t @ '' m'' @ sup2)))
      else bindE (toFixed E val (decimals M)) (\<lambda>t. Inr (t @ '' '' @ areaUnit M)))"

text \<open>The loop \<open>for (i = 0; i < path.length - 1; i++)\<close> over \<open>path[i], path[i + 1]\<close>.\<close>

fun consecutive :: "'a list \<Rightarrow> ('a \<times> 'a) list" where
  "consecutive (a # b # xs) = (a, b) # consecutive (b # xs)"
| "consecutive xs = []"

text \<open>
  The paths of a polyline, else the rings (\<open>pg.rings ?? []\<close>: none for a point).
\<close>

fun pathsOrRings :: "geometry \<Rightarrow> coord list list" where
  "pathsOrRings (Polyline ps) = ps"
| "pathsOrRings (Polygon rs) = rs"
| "pathsOrRings (Point p) = []"

definition getSegments :: "geometry \<Rightarrow> (coord \<times> coord) list" where
  "getSegments geom = concat (map consecutive (pathsOrRings geom))"

text \<open>\<open>segmentLengths(geom)\<close>: one engine call per segment, path by path.\<close>

definition segmentLengths :: "env \<Rightarrow> units \<Rightarrow> geometry \<Rightarrow> jsError + jsnum list" where
  "segmentLengths E M geom =
     mapE (\<lambda>(a, b). geodesicLength E M (Polyline [[a, b]]))
          (concat (map consecutive (pathsOrRings geom)))"

fun getSegmentMidpoint :: "coord \<times> coord \<Rightarrow> coord" where
  "getSegmentMidpoint ((x1, y1), (x2, y2)) = ((x1 + x2) / 2, (y1 + y2) / 2)"

text \<open>
  \<open>Math.atan2(dy, dx)\<close> on reals: the angle of the vector \<open>(dx, dy)\<close> in \<open>(-pi, pi]\<close>,
  and 0 for the zero vector.
\<close>

definition atan2 :: "real \<Rightarrow> real \<Rightarrow> real" where
  "atan2 dy dx =
     (if dx > 0 then arctan (dy / dx)
      else if dx < 0 \<and> dy \<ge> 0 then arctan (dy / dx) + pi
      else if dx < 0 then arctan (dy / dx) - pi
      else if dy > 0 then pi / 2
      else if dy < 0 then - pi / 2
      else 0)"

fun getSegmentAngle :: "coord \<times> coord \<Rightarrow> real" where
  "getSegmentAngle ((x1, y1), (x2, y2)) = atan2 (y2 - y1) (x2 - x1) * 180 / pi"

text \<open>
  \<open>centroidLabelPoint(geom)\<close>: the centroid of a polygon; otherwise the centre of the
  extent when there is an extent, else the (absent) centroid.
\<close>

definition centroidLabelPoint :: "env \<Rightarrow> geometry \<Rightarrow> coord option" where
  "centroidLabelPoint E geom =
     (if isPolygon geom then geomCentroid E geom
      else (case geomExtentCenter E geom of
              Some c \<Rightarrow> Some c
            | None \<Rightarrow> geomCentroid E geom))"


section \<open>Settings, graphics and the state of SketchService\<close>

datatype GeometryTool = ToolPoint | ToolPolyline | ToolPolygon | ToolRectangle | ToolCircle | ToolText

fun toolName :: "GeometryTool \<Rightarrow> string" where
  "toolName ToolPoint = ''point''"
| "toolName ToolPolyline = ''polyline''"
| "toolName ToolPolygon = ''polygon''"
| "toolName ToolRectangle = ''rectangle''"
| "toolName ToolCircle = ''circle''"
| "toolName ToolText = ''text''"

record text_settings =
  content :: string
  fontFamily :: string
  fontSize :: real
  color :: string
  haloColor :: string
  haloSize :: real

record label_settings =
  showDuringDraw :: bool
  showSegmentLengths :: bool
  showTotals :: bool
  showCircleRadius :: bool
  showTitle :: bool

record DrawSettings =
  tool :: GeometryTool
  fillColor :: string
  fillOpacity :: real
  outlineColor :: string
  outlineWidth :: real
  textSettings :: text_settings
  labelSettings :: label_settings

text \<open>
  The text symbol of a label. Colours stay the hex strings of the settings (the conversion
  \<open>hexToRgbArray\<close> is styling only).
\<close>

record text_symbol =
  symText :: string
  symColor :: string
  symHaloColor :: string
  symHaloSize :: real
  symAngle :: real
  symFontFamily :: string
  symFontSize :: real

datatype symbol = TextSymbol text_symbol | OtherSymbol

text \<open>
  A \<open>Graphic\<close>: geometry, symbol, attributes (\<open>tool\<close>, \<open>title\<close>), and the field \<open>__sid\<close> that
  \<open>getGraphicId\<close> attaches. Graphics are objects: the state holds them in a heap, and
  layers, maps and events hold references.
\<close>

record graphic =
  geometry :: "geometry option"
  symbol :: "symbol option"
  attributes :: "(string \<rightharpoonup> string) option"
  sid :: "string option"

type_synonym gref = nat

record SelectionMeasurement =
  mId :: string
  geometryType :: string
  mTool :: "string option"
  rows :: "(string \<times> string) list"

datatype layer = DrawLayer | SelectionLayer

datatype selection_mode = Rectangle

text \<open>
  The fields of \<open>SketchService\<close> that the event handlers read and write. \<open>svmLayer\<close> is
  \<open>svm.layer\<close>; \<open>selectionLayer\<close> is \<open>None\<close> until the temporary layer is first created.
  \<open>textClickHandler\<close> tells whether the one-shot text placement handler is installed.
  The two subjects are kept as the lists of values published so far. \<open>ticks\<close> counts the
  identifiers minted, to index the clock and random readings of the environment.
\<close>

record sketch =
  heap :: "gref \<Rightarrow> graphic"
  nextRef :: gref
  drawLayer :: "gref list"
  labelLayer :: "gref list"
  textLayer :: "gref list"
  tempLabels :: "gref list"
  textClickHandler :: bool
  selectionMode :: "selection_mode option"
  isEditing :: bool
  selectionLayer :: "gref list option"
  selectionMap :: "gref \<rightharpoonup> gref"
  svmLayer :: layer
  labelIndex :: "string \<rightharpoonup> gref list"
  currentSettings :: "DrawSettings option"
  ticks :: nat
  measurementsOut :: "SelectionMeasurement list list"
  selectedIdsOut :: "string list list"

text \<open>
  What a handler leaves behind: the error that escaped it, if any, and the state at that
  moment (everything written before a throw stays written).
\<close>

type_synonym outcome = "jsError option \<times> sketch"

datatype phase = Start | Active | Complete | Cancel

record create_event =
  ceState :: phase
  ceGraphic :: "gref option"

record update_event =
  ueState :: phase
  ueGraphics :: "gref list"

text \<open>\<open>new Graphic({...})\<close>: the next free reference holds the new object.\<close>

definition alloc :: "sketch \<Rightarrow> graphic \<Rightarrow> gref \<times> sketch" where
  "alloc s g = (nextRef s, s\<lparr>heap := (heap s)(nextRef s := g), nextRef := Suc (nextRef s)\<rparr>)"

fun allocAll :: "sketch \<Rightarrow> graphic list \<Rightarrow> gref list \<times> sketch" where
  "allocAll s [] = ([], s)"
| "allocAll s (g # gs) =
     (let (r, s1) = alloc s g; (rs, s2) = allocAll s1 gs in (r # rs, s2))"


section \<open>Identifiers\<close>

text \<open>The decimal digits of a natural number, as a template literal prints an integer.\<close>

definition digitChar :: "nat \<Rightarrow> char" where
  "digitChar d = ''0123456789'' ! d"

fun showNat :: "nat \<Rightarrow> string" where
  "showNat n = (if n < 10 then [digitChar n] else showNat (n div 10) @ [digitChar (n mod 10)])"

declare showNat.simps [simp del]

text \<open>
  \<open>`g-${Date.now()}-${Math.random().toString(36).slice(2, 8)}`\<close> for the clock reading
  \<open>now\<close> and the base-36 rendering \<open>rnd\<close> of the random number.
\<close>

definition newId :: "nat \<Rightarrow> string \<Rightarrow> string" where
  "newId now rnd = ''g-'' @ showNat now @ ''-'' @ take 6 (drop 2 rnd)"

text \<open>
  \<open>getGraphicId(graphic)\<close>: \<open>if (!id)\<close> holds for a missing and for an empty \<open>__sid\<close>; then
  a new identifier is built and attached. Nothing is compared with identifiers in use.
\<close>

definition getGraphicId :: "env \<Rightarrow> sketch \<Rightarrow> gref \<Rightarrow> string \<times> sketch" where
  "getGraphicId E s g =
     (case sid (heap s g) of
        Some i \<Rightarrow>
          if i \<noteq> [] then (i, s)
          else (let n = newId (dateNow E (ticks s)) (random36 E (ticks s)) in
                (n, s\<lparr>heap := (heap s)(g := (heap s g)\<lparr>sid := Some n\<rparr>), ticks := Suc (ticks s)\<rparr>))
      | None \<Rightarrow>
          (let n = newId (dateNow E (ticks s)) (random36 E (ticks s)) in
           (n, s\<lparr>heap := (heap s)(g := (heap s g)\<lparr>sid := Some n\<rparr>), ticks := Suc (ticks s)\<rparr>)))"

text \<open>\<open>graphics.map((g) => this.getGraphicId(g))\<close>, in order.\<close>

fun graphicIds :: "env \<Rightarrow> sketch \<Rightarrow> gref list \<Rightarrow> string list \<times> sketch" where
  "graphicIds E s [] = ([], s)"
| "graphicIds E s (g # gs) =
     (let (i, s1) = getGraphicId E s g; (is, s2) = graphicIds E s1 gs in (i # is, s2))"


section \<open>Label placement\<close>

text \<open>\<open>offsetPoint(p, dxPx, dyPx)\<close>: through screen space and back; \<open>p\<close> itself on failure.\<close>

definition offsetPoint :: "env \<Rightarrow> coord \<Rightarrow> real \<Rightarrow> real \<Rightarrow> coord" where
  "offsetPoint E p dxPx dyPx =
     (case viewToScreen E p of
        None \<Rightarrow> p
      | Some scr \<Rightarrow>
          (case viewToMap E (fst scr + dxPx, snd scr + dyPx) of
             None \<Rightarrow> p
           | Some mapped \<Rightarrow> mapped))"

text \<open>\<open>Math.round\<close> rounds halves up.\<close>

definition mathRound :: "real \<Rightarrow> real" where
  "mathRound x = of_int \<lfloor>x + 1 / 2\<rfloor>"

text \<open>The closure \<open>addText(p, text, angle)\<close> of \<open>makeLabelsForGeometry\<close>: the label it pushes.\<close>

definition addText :: "DrawSettings \<Rightarrow> coord \<Rightarrow> string \<Rightarrow> real \<Rightarrow> graphic" where
  "addText st p txt angle =
     \<lparr>geometry = Some (Point p),
      symbol = Some (TextSymbol
        \<lparr>symText = txt,
         symColor = color (textSettings st),
         symHaloColor = haloColor (textSettings st),
         symHaloSize = haloSize (textSettings st),
         symAngle = angle,
         symFontFamily = fontFamily (textSettings st),
         symFontSize = fontSize (textSettings st)\<rparr>),
      attributes = None,
      sid = None\<rparr>"

text \<open>The text and the angle a label graphic carries.\<close>

definition labelText :: "graphic \<Rightarrow> string" where
  "labelText g = (case symbol g of Some (TextSymbol t) \<Rightarrow> symText t | _ \<Rightarrow> [])"

definition labelAngle :: "graphic \<Rightarrow> real" where
  "labelAngle g = (case symbol g of Some (TextSymbol t) \<Rightarrow> symAngle t | _ \<Rightarrow> 0)"

text \<open>
  The normalisation inside the segment loop:
  \<open>if (angle > 90) angle -= 180; else if (angle < -90) angle += 180;\<close>
\<close>

definition normalizeAngle :: "real \<Rightarrow> real" where
  "normalizeAngle angle =
     (if angle > 90 then angle - 180 else if angle < - 90 then angle + 180 else angle)"

text \<open>
  The segment loop of \<open>makeLabelsForGeometry\<close> (the same block in the polyline and in the
  polygon branch): the lengths are computed first, then one label per segment, up to the
  shorter of the two lists.
\<close>

definition segmentLabels :: "env \<Rightarrow> units \<Rightarrow> geometry \<Rightarrow> DrawSettings \<Rightarrow> jsError + graphic list" where
  "segmentLabels E M geom st =
     bindE (segmentLengths E M geom) (\<lambda>lens.
       mapE (\<lambda>(segment, len).
               let midpoint = getSegmentMidpoint segment;
                   angle = normalizeAngle (getSegmentAngle segment);
                   angleRad = (angle + 90) * (pi / 180);
                   dxPx = 10 * cos angleRad;
                   dyPx = 10 * sin angleRad;
                   offsetMidpoint = offsetPoint E midpoint dxPx dyPx
               in bindE (formatLength E M len) (\<lambda>txt. Inr (addText st offsetMidpoint txt angle)))
            (zip (getSegments geom) lens))"

text \<open>\<open>centroidLabelPoint(geom) || geom.extent?.center\<close> (and the same with \<open>??\<close>).\<close>

definition labelAnchor :: "env \<Rightarrow> geometry \<Rightarrow> coord option" where
  "labelAnchor E geom =
     (case centroidLabelPoint E geom of
        Some c \<Rightarrow> Some c
      | None \<Rightarrow> geomExtentCenter E geom)"

text \<open>\<open>settings.text.content || 'Feature'\<close>\<close>

definition titleOf :: "DrawSettings \<Rightarrow> string" where
  "titleOf st = (if content (textSettings st) = [] then ''Feature'' else content (textSettings st))"

text \<open>
  The stacking loop of the centre block: line \<open>i\<close> of \<open>n\<close> lines is offset by
  \<open>(i - (n - 1)) * lineHeight\<close> with \<open>lineHeight = Math.round(fontSize * 1.2)\<close>.
\<close>

definition lineHeight :: "DrawSettings \<Rightarrow> real" where
  "lineHeight st = mathRound (fontSize (textSettings st) * 1.2)"

definition stackLines :: "env \<Rightarrow> DrawSettings \<Rightarrow> coord \<Rightarrow> string list \<Rightarrow> graphic list" where
  "stackLines E st center lines =
     map (\<lambda>(i, l). addText st
                     (offsetPoint E center 0 ((real i - (real (length lines) - 1)) * lineHeight st))
                     l 0)
         (enumerate 0 lines)"

text \<open>The lines of the centre block, for a polyline and for a polygon.\<close>

definition polylineCenterLines :: "env \<Rightarrow> units \<Rightarrow> geometry \<Rightarrow> DrawSettings \<Rightarrow> jsError + string list" where
  "polylineCenterLines E M geom st =
     bindE (if showTotals (labelSettings st) then
              bindE (geodesicLength E M geom) (\<lambda>total.
              bindE (formatLength E M total) (\<lambda>t. Inr [''L = '' @ t]))
            else Inr []) (\<lambda>totals.
     Inr ((if showTitle (labelSettings st) then [titleOf st] else []) @ totals))"

definition polygonCenterLines :: "env \<Rightarrow> units \<Rightarrow> geometry \<Rightarrow> DrawSettings \<Rightarrow> jsError + string list" where
  "polygonCenterLines E M geom st =
     bindE (if showTotals (labelSettings st) then
              bindE (geodesicArea E M geom) (\<lambda>area.
              bindE (geodesicPerimeter E M geom) (\<lambda>per.
              bindE (formatArea E M area) (\<lambda>a.
              bindE (formatLength E M per) (\<lambda>p. Inr [''A = '' @ a, ''P = '' @ p]))))
            else Inr []) (\<lambda>totals.
     bindE (if showCircleRadius (labelSettings st) then
              bindE (radiusFromPolygon E M geom) (\<lambda>r.
              bindE (formatLength E M r) (\<lambda>t. Inr [''R = '' @ t]))
            else Inr []) (\<lambda>radius.
     Inr ((if showTitle (labelSettings st) then [titleOf st] else []) @ totals @ radius)))"

text \<open>
  \<open>makeLabelsForGeometry(geom, settings)\<close>: the label graphics in the order pushed, or the
  error thrown on the way. The function receives the geometry and the settings only; no
  tool tag reaches it.
\<close>

definition makeLabelsForGeometry :: "env \<Rightarrow> units \<Rightarrow> geometry \<Rightarrow> DrawSettings \<Rightarrow> jsError + graphic list" where
  "makeLabelsForGeometry E M geom st =
     (if isPolyline geom then
        bindE (if showSegmentLengths (labelSettings st) then segmentLabels E M geom st
               else Inr []) (\<lambda>segs.
        bindE (if showTitle (labelSettings st) \<or> showTotals (labelSettings st) then
                 (case labelAnchor E geom of
                    None \<Rightarrow> Inr []
                  | Some center \<Rightarrow>
                      bindE (polylineCenterLines E M geom st) (\<lambda>lines.
                      Inr (stackLines E st center lines)))
               else Inr []) (\<lambda>centre.
        Inr (segs @ centre)))
      else if isPolygon geom then
        bindE (if showSegmentLengths (labelSettings st) then segmentLabels E M geom st
               else Inr []) (\<lambda>segs.
        bindE (case labelAnchor E geom of
                 None \<Rightarrow> Inr []
               | Some center \<Rightarrow>
                   bindE (polygonCenterLines E M geom st) (\<lambda>lines.
                   Inr (stackLines E st center lines))) (\<lambda>centre.
        Inr (segs @ centre)))
      else Inr [])"

text \<open>
  The locals \<open>spacing\<close>, \<open>measurementLines\<close> and \<open>sep\<close> of \<open>placeTitleLabel\<close>. The type of
  \<open>fontSize\<close> is \<open>number\<close>, so the default of \<open>fontSize ?? 12\<close> is never taken.
\<close>

definition spacing :: "DrawSettings \<Rightarrow> real" where
  "spacing st = mathRound (fontSize (textSettings st) * 1.0)"

definition measurementLines :: "DrawSettings \<Rightarrow> nat" where
  "measurementLines st =
     (if showTotals (labelSettings st) then 2 else 0)
     + (if showCircleRadius (labelSettings st) then 1 else 0)"

definition titleSep :: "geometry \<Rightarrow> DrawSettings \<Rightarrow> real" where
  "titleSep geom st =
     (if isPolyline geom \<and> showTotals (labelSettings st) then spacing st
      else if isPolygon geom then
        (if measurementLines st > 0
         then mathRound (((real (measurementLines st) + 1) / 2) * spacing st)
         else 0)
      else 0)"

text \<open>
  \<open>placeTitleLabel(geom, settings)\<close>: the title graphic is created, added to the label
  layer and returned; \<open>null\<close> when there is no anchor.
\<close>

definition titleBasePoint :: "env \<Rightarrow> geometry \<Rightarrow> coord option" where
  "titleBasePoint E geom = (case geom of Point p \<Rightarrow> Some p | _ \<Rightarrow> labelAnchor E geom)"

definition titleGraphic :: "DrawSettings \<Rightarrow> coord \<Rightarrow> graphic" where
  "titleGraphic st finalPt =
     \<lparr>geometry = Some (Point finalPt),
      symbol = Some (TextSymbol
        \<lparr>symText = titleOf st,
         symColor = color (textSettings st),
         symHaloColor = haloColor (textSettings st),
         symHaloSize = haloSize (textSettings st),
         symAngle = 0,
         symFontFamily = fontFamily (textSettings st),
         symFontSize = fontSize (textSettings st)\<rparr>),
      attributes = None,
      sid = None\<rparr>"

definition placeTitleLabel :: "env \<Rightarrow> sketch \<Rightarrow> geometry \<Rightarrow> DrawSettings \<Rightarrow> gref option \<times> sketch" where
  "placeTitleLabel E s geom st =
     (case titleBasePoint E geom of
        None \<Rightarrow> (None, s)
      | Some basePt \<Rightarrow>
          (let sep = titleSep geom st;
               finalPt = (if sep \<noteq> 0 then offsetPoint E basePt 0 (- sep) else basePt);
               (g, s1) = alloc s (titleGraphic st finalPt)
           in (Some g, s1\<lparr>labelLayer := labelLayer s1 @ [g]\<rparr>)))"


section \<open>SketchService: helpers\<close>

text \<open>\<open>gs.forEach((g) => layer.remove(g))\<close>\<close>

definition removeEach :: "gref list \<Rightarrow> gref list \<Rightarrow> gref list" where
  "removeEach lay gs = foldl (\<lambda>l g. remove1 g l) lay gs"

definition clearTempLabels :: "sketch \<Rightarrow> sketch" where
  "clearTempLabels s =
     (if tempLabels s = [] then s
      else s\<lparr>labelLayer := removeEach (labelLayer s) (tempLabels s), tempLabels := []\<rparr>)"

definition removePersistedLabelsFor :: "sketch \<Rightarrow> gref \<Rightarrow> sketch" where
  "removePersistedLabelsFor s g =
     (case sid (heap s g) of
        None \<Rightarrow> s
      | Some i \<Rightarrow>
          if i = [] then s
          else s\<lparr>labelLayer := removeEach (labelLayer s)
                                  (case labelIndex s i of Some arr \<Rightarrow> arr | None \<Rightarrow> []),
                 labelIndex := (labelIndex s)(i := None)\<rparr>)"

definition setSelectedGraphicIds :: "string list \<Rightarrow> sketch \<Rightarrow> sketch" where
  "setSelectedGraphicIds ids s = s\<lparr>selectedIdsOut := selectedIdsOut s @ [ids]\<rparr>"

definition publishMeasurements :: "SelectionMeasurement list \<Rightarrow> sketch \<Rightarrow> sketch" where
  "publishMeasurements ms s = s\<lparr>measurementsOut := measurementsOut s @ [ms]\<rparr>"

text \<open>\<open>prepareSelectionLayer(clear)\<close>: creates the layer once; clears layer and clone map.\<close>

definition prepareSelectionLayer :: "bool \<Rightarrow> sketch \<Rightarrow> sketch" where
  "prepareSelectionLayer clear s =
     (let s1 = (if selectionLayer s = None then s\<lparr>selectionLayer := Some []\<rparr> else s)
      in if clear then s1\<lparr>selectionLayer := Some [], selectionMap := Map.empty\<rparr> else s1)"

text \<open>\<open>endSelectionEdit(clearLayer)\<close>\<close>

definition endSelectionEdit :: "bool \<Rightarrow> sketch \<Rightarrow> sketch" where
  "endSelectionEdit clearLayer s =
     (let s1 = (if selectionLayer s \<noteq> None \<and> clearLayer then s\<lparr>selectionLayer := Some []\<rparr> else s);
          s2 = s1\<lparr>selectionMap := Map.empty\<rparr>;
          s3 = publishMeasurements [] s2;
          s4 = s3\<lparr>svmLayer := DrawLayer\<rparr>
      in setSelectedGraphicIds [] s4)"

text \<open>
  \<open>cloneGraphic(src)\<close>: a new graphic with copies of geometry, symbol and attributes;
  the field \<open>__sid\<close> is not among them.
\<close>

definition cloneGraphic :: "sketch \<Rightarrow> gref \<Rightarrow> gref \<times> sketch" where
  "cloneGraphic s src =
     alloc s \<lparr>geometry = geometry (heap s src),
              symbol = symbol (heap s src),
              attributes = attributes (heap s src),
              sid = None\<rparr>"

text \<open>
  The loop that starts a joint-editing session: each source is cloned, the clone is added
  to the selection layer and recorded in the clone map.
\<close>

fun cloneInto :: "sketch \<Rightarrow> gref list \<Rightarrow> sketch" where
  "cloneInto s [] = s"
| "cloneInto s (src # srcs) =
     (let (clone, s1) = cloneGraphic s src;
          s2 = s1\<lparr>selectionLayer := Some ((case selectionLayer s1 of Some l \<Rightarrow> l | None \<Rightarrow> []) @ [clone]),
                 selectionMap := (selectionMap s1)(clone \<mapsto> src)\<rparr>
      in cloneInto s2 srcs)"

text \<open>\<open>src.attributes?.tool\<close>\<close>

definition toolOf :: "graphic \<Rightarrow> string option" where
  "toolOf g = (case attributes g of None \<Rightarrow> None | Some a \<Rightarrow> a ''tool'')"

text \<open>
  The entry that \<open>buildMeasurementsForGraphics\<close> pushes for a polyline and for a polygon,
  given the identifier and tool of the source; the numbers come from the graphic's own
  geometry, and each engine or formatting call can throw.
\<close>

definition polylineMeasurement ::
  "env \<Rightarrow> units \<Rightarrow> geometry \<Rightarrow> string \<Rightarrow> string option \<Rightarrow> jsError + SelectionMeasurement" where
  "polylineMeasurement E M geom i t =
     bindE (geodesicLength E M geom) (\<lambda>total.
     bindE (segmentLengths E M geom) (\<lambda>segs.
     bindE (formatLength E M total) (\<lambda>tl.
     Inr \<lparr>mId = i, geometryType = ''polyline'', mTool = t,
          rows = [(''Total length'', tl), (''Segments'', showNat (length segs))]\<rparr>)))"

definition polygonMeasurement ::
  "env \<Rightarrow> units \<Rightarrow> geometry \<Rightarrow> string \<Rightarrow> string option \<Rightarrow> jsError + SelectionMeasurement" where
  "polygonMeasurement E M geom i t =
     bindE (geodesicArea E M geom) (\<lambda>area.
     bindE (geodesicPerimeter E M geom) (\<lambda>per.
     bindE (formatArea E M area) (\<lambda>a.
     bindE (formatLength E M per) (\<lambda>p.
     bindE (if t = Some ''circle'' then
              bindE (radiusFromPolygon E M geom) (\<lambda>r.
              bindE (formatLength E M r) (\<lambda>rl. Inr [(''Radius'', rl)]))
            else Inr []) (\<lambda>radius.
     Inr \<lparr>mId = i, geometryType = ''polygon'', mTool = t,
          rows = [(''Area'', a), (''Perimeter'', p)] @ radius\<rparr>)))))"

text \<open>
  \<open>buildMeasurementsForGraphics(graphics, settings)\<close>: identifier and tool come from the
  source of a clone (\<open>this.selectionMap.get(g) ?? g\<close>); points give no entry. The
  identifier is asked for first, so it stays attached when a later call throws.
\<close>

fun buildMeasurementsForGraphics ::
  "env \<Rightarrow> units \<Rightarrow> sketch \<Rightarrow> gref list \<Rightarrow> DrawSettings
     \<Rightarrow> (jsError + SelectionMeasurement list) \<times> sketch" where
  "buildMeasurementsForGraphics E M s [] st = (Inr [], s)"
| "buildMeasurementsForGraphics E M s (g # gs) st =
     (let src = (case selectionMap s g of Some x \<Rightarrow> x | None \<Rightarrow> g) in
      case geometry (heap s g) of
        None \<Rightarrow> buildMeasurementsForGraphics E M s gs st
      | Some geom \<Rightarrow>
          if isPolyline geom then
            (let (i, s1) = getGraphicId E s src in
             case polylineMeasurement E M geom i (toolOf (heap s1 src)) of
               Inl e \<Rightarrow> (Inl e, s1)
             | Inr m \<Rightarrow>
                 (let (out, s2) = buildMeasurementsForGraphics E M s1 gs st
                  in (bindE out (\<lambda>ms. Inr (m # ms)), s2)))
          else if isPolygon geom then
            (let (i, s1) = getGraphicId E s src in
             case polygonMeasurement E M geom i (toolOf (heap s1 src)) of
               Inl e \<Rightarrow> (Inl e, s1)
             | Inr m \<Rightarrow>
                 (let (out, s2) = buildMeasurementsForGraphics E M s1 gs st
                  in (bindE out (\<lambda>ms. Inr (m # ms)), s2)))
          else buildMeasurementsForGraphics E M s gs st)"

text \<open>
  \<open>publishMeasurementsFromGraphics(graphics)\<close>: nothing is published when building the
  rows throws.
\<close>

definition publishMeasurementsFromGraphics :: "env \<Rightarrow> units \<Rightarrow> sketch \<Rightarrow> gref list \<Rightarrow> outcome" where
  "publishMeasurementsFromGraphics E M s graphics =
     (case currentSettings s of
        None \<Rightarrow> (None, publishMeasurements [] s)
      | Some st \<Rightarrow>
          (let (built, s1) = buildMeasurementsForGraphics E M s graphics st in
           case built of
             Inl e \<Rightarrow> (Some e, s1)
           | Inr ms \<Rightarrow> (None, publishMeasurements ms s1)))"

text \<open>
  The block shared by the complete phase of a creation and of a direct update: the
  graphic's identifier, removal of its persisted labels, the new labels (added to the
  label layer), the title when enabled, and the new entry of the label index. When label
  generation throws, the old labels are already removed and no entry is written.
\<close>

definition persistLabels :: "env \<Rightarrow> units \<Rightarrow> sketch \<Rightarrow> gref \<Rightarrow> geometry \<Rightarrow> DrawSettings \<Rightarrow> outcome" where
  "persistLabels E M s g geom st =
     (let (gid, s1) = getGraphicId E s g;
          s2 = removePersistedLabelsFor s1 g
      in case makeLabelsForGeometry E M geom st of
           Inl e \<Rightarrow> (Some e, s2)
         | Inr made \<Rightarrow>
             (let (lbls, s3) = allocAll s2 made;
                  s4 = s3\<lparr>labelLayer := labelLayer s3 @ lbls\<rparr>;
                  (persisted, s5) =
                    (if showTitle (labelSettings st) then
                       (case placeTitleLabel E s4 geom st of
                          (Some titleG, s') \<Rightarrow> (lbls @ [titleG], s')
                        | (None, s') \<Rightarrow> (lbls, s'))
                     else (lbls, s4))
              in (None, s5\<lparr>labelIndex := (labelIndex s5)(gid \<mapsto> persisted)\<rparr>)))"


section \<open>SketchService: the creation handler\<close>

text \<open>
  The graphics of the draw layer, then of the text layer, that intersect the marquee
  (\<open>g.geometry && geometryEngine.intersects(g.geometry, geom)\<close>).
\<close>

definition intersectsMarquee :: "env \<Rightarrow> sketch \<Rightarrow> geometry \<Rightarrow> gref \<Rightarrow> jsError + bool" where
  "intersectsMarquee E s geom g =
     (case geometry (heap s g) of Some gg \<Rightarrow> engIntersects E gg geom | None \<Rightarrow> Inr False)"

definition selectIntersecting :: "env \<Rightarrow> sketch \<Rightarrow> geometry \<Rightarrow> jsError + gref list" where
  "selectIntersecting E s geom =
     bindE (filterE (intersectsMarquee E s geom) (drawLayer s)) (\<lambda>a.
     bindE (filterE (intersectsMarquee E s geom) (textLayer s)) (\<lambda>b.
     Inr (a @ b)))"

text \<open>
  The body of the \<open>try\<close> block of the complete phase in selection mode. The marquee
  graphic leaves the draw layer; when something intersects, clones are made and the
  identifiers of their sources are published. \<open>svm.update(toEdit)\<close> only starts the
  view-model's edit and changes no field here.
\<close>

definition selectionTry :: "env \<Rightarrow> units \<Rightarrow> sketch \<Rightarrow> create_event \<Rightarrow> geometry \<Rightarrow> outcome" where
  "selectionTry E M s evt geom =
     (let s1 = (case ceGraphic evt of
                  Some g \<Rightarrow> s\<lparr>drawLayer := remove1 g (drawLayer s)\<rparr>
                | None \<Rightarrow> s)
      in case selectIntersecting E s1 geom of
           Inl e \<Rightarrow> (Some e, s1)
         | Inr selected \<Rightarrow>
             if selected \<noteq> [] then
               (let s2 = prepareSelectionLayer True s1;
                    s3 = cloneInto s2 selected;
                    s4 = s3\<lparr>svmLayer := SelectionLayer\<rparr>;
                    toEdit = (case selectionLayer s4 of Some l \<Rightarrow> l | None \<Rightarrow> [])
                in case publishMeasurementsFromGraphics E M s4 toEdit of
                     (Some e, s5) \<Rightarrow> (Some e, s5)
                   | (None, s5) \<Rightarrow>
                       (let (ids, s6) = graphicIds E s5 (List.map_filter (selectionMap s5) toEdit)
                        in (None, setSelectedGraphicIds ids s6)))
             else (None, s1))"

text \<open>
  The complete phase in selection mode: the \<open>finally\<close> block clears selection mode and
  temporary labels whether or not the body threw.
\<close>

definition createSelectionComplete :: "env \<Rightarrow> units \<Rightarrow> sketch \<Rightarrow> create_event \<Rightarrow> geometry \<Rightarrow> outcome" where
  "createSelectionComplete E M s evt geom =
     (let (thrown, s7) = selectionTry E M s evt geom
      in (thrown, clearTempLabels (s7\<lparr>selectionMode := None\<rparr>)))"

definition createActive :: "env \<Rightarrow> units \<Rightarrow> sketch \<Rightarrow> geometry \<Rightarrow> DrawSettings \<Rightarrow> outcome" where
  "createActive E M s geom st =
     (let s1 = clearTempLabels (s\<lparr>isEditing := True\<rparr>) in
      if showDuringDraw (labelSettings st) then
        (case makeLabelsForGeometry E M geom st of
           Inl e \<Rightarrow> (Some e, s1)
         | Inr made \<Rightarrow>
             (let (lbls, s2) = allocAll s1 made
              in (None, s2\<lparr>tempLabels := lbls, labelLayer := labelLayer s2 @ lbls\<rparr>)))
      else (None, s1))"

definition createComplete :: "env \<Rightarrow> units \<Rightarrow> sketch \<Rightarrow> gref \<Rightarrow> geometry \<Rightarrow> DrawSettings \<Rightarrow> outcome" where
  "createComplete E M s g geom st =
     (let s1 = clearTempLabels (s\<lparr>isEditing := False\<rparr>);
          attrs = (case attributes (heap s1 g) of None \<Rightarrow> Map.empty | Some a \<Rightarrow> a);
          s2 = s1\<lparr>heap := (heap s1)(g := (heap s1 g)
                      \<lparr>attributes := Some (attrs(''tool'' \<mapsto> toolName (tool st)))\<rparr>)\<rparr>
      in persistLabels E M s2 g geom st)"

text \<open>
  The handler of \<open>svm.on('create')\<close>. \<open>geom\<close> is \<open>evt.graphic?.geometry\<close>. Without
  settings the handler returns at once.
\<close>

definition onCreate :: "env \<Rightarrow> units \<Rightarrow> sketch \<Rightarrow> create_event \<Rightarrow> outcome" where
  "onCreate E M s evt =
     (case currentSettings s of
        None \<Rightarrow> (None, s)
      | Some st \<Rightarrow>
          (let geom = (case ceGraphic evt of None \<Rightarrow> None | Some g \<Rightarrow> geometry (heap s g)) in
           if selectionMode s \<noteq> None then
             (if ceState evt = Active then (None, s)
              else if ceState evt = Complete then
                (case geom of None \<Rightarrow> (None, s) | Some gm \<Rightarrow> createSelectionComplete E M s evt gm)
              else if ceState evt = Cancel then
                (None, setSelectedGraphicIds [] (clearTempLabels (s\<lparr>selectionMode := None\<rparr>)))
              else (None, s))
           else if ceState evt = Active then
             (case geom of None \<Rightarrow> (None, s) | Some gm \<Rightarrow> createActive E M s gm st)
           else if ceState evt = Complete then
             (case ceGraphic evt of
                None \<Rightarrow> (None, s)
              | Some g \<Rightarrow>
                  (case geom of None \<Rightarrow> (None, s) | Some gm \<Rightarrow> createComplete E M s g gm st))
           else if ceState evt = Cancel then
             (None, clearTempLabels (s\<lparr>isEditing := False\<rparr>))
           else (None, s)))"


section \<open>SketchService: the update handler\<close>

text \<open>The active phase: temporary labels for every edited graphic that has a geometry.\<close>

fun tempLabelEach :: "env \<Rightarrow> units \<Rightarrow> sketch \<Rightarrow> gref list \<Rightarrow> DrawSettings \<Rightarrow> outcome" where
  "tempLabelEach E M s [] st = (None, s)"
| "tempLabelEach E M s (g # gs) st =
     (case geometry (heap s g) of
        None \<Rightarrow> tempLabelEach E M s gs st
      | Some geom \<Rightarrow>
          (case makeLabelsForGeometry E M geom st of
             Inl e \<Rightarrow> (Some e, s)
           | Inr made \<Rightarrow>
               (let (lbls, s1) = allocAll s made
                in tempLabelEach E M
                     (s1\<lparr>labelLayer := labelLayer s1 @ lbls, tempLabels := tempLabels s1 @ lbls\<rparr>)
                     gs st)))"

definition updateActive :: "env \<Rightarrow> units \<Rightarrow> sketch \<Rightarrow> gref list \<Rightarrow> DrawSettings \<Rightarrow> outcome" where
  "updateActive E M s graphics st =
     (let s1 = clearTempLabels (s\<lparr>isEditing := True\<rparr>) in
      case (if showDuringDraw (labelSettings st) then tempLabelEach E M s1 graphics st
            else (None, s1)) of
        (Some e, s2) \<Rightarrow> (Some e, s2)
      | (None, s2) \<Rightarrow>
          (case publishMeasurementsFromGraphics E M s2 graphics of
             (Some e, s3) \<Rightarrow> (Some e, s3)
           | (None, s3) \<Rightarrow>
               (let (selectedIds, s4) = graphicIds E s3 graphics
                in (None, setSelectedGraphicIds selectedIds s4))))"

text \<open>
  The commit loop of the complete phase: a graphic with an entry in the clone map hands a
  copy of its geometry to its source; a graphic without an entry is skipped.
\<close>

fun commitGeometry :: "sketch \<Rightarrow> gref list \<Rightarrow> sketch" where
  "commitGeometry s [] = s"
| "commitGeometry s (g # gs) =
     (case selectionMap s g of
        None \<Rightarrow> commitGeometry s gs
      | Some src \<Rightarrow>
          commitGeometry
            (s\<lparr>heap := (heap s)(src := (heap s src)\<lparr>geometry := geometry (heap s g)\<rparr>)\<rparr>) gs)"

text \<open>The direct-edit path of the complete phase: fresh persisted labels per graphic.\<close>

fun persistEach :: "env \<Rightarrow> units \<Rightarrow> sketch \<Rightarrow> gref list \<Rightarrow> DrawSettings \<Rightarrow> outcome" where
  "persistEach E M s [] st = (None, s)"
| "persistEach E M s (g # gs) st =
     (case geometry (heap s g) of
        None \<Rightarrow> persistEach E M s gs st
      | Some geom \<Rightarrow>
          (case persistLabels E M s g geom st of
             (Some e, s1) \<Rightarrow> (Some e, s1)
           | (None, s1) \<Rightarrow> persistEach E M s1 gs st))"

text \<open>
  The complete phase. While the view-model edits the selection layer the source runs
  \<open>try { publish; commit loop } finally { this.endSelectionEdit() }\<close>: when publishing
  throws, the commit loop is skipped, the session is still torn down, and the error leaves
  the handler. On the direct-edit path an error leaves the remaining graphics and the
  final publication undone.
\<close>

definition updateComplete :: "env \<Rightarrow> units \<Rightarrow> sketch \<Rightarrow> gref list \<Rightarrow> DrawSettings \<Rightarrow> outcome" where
  "updateComplete E M s graphics st =
     (let s1 = s\<lparr>isEditing := False\<rparr> in
      if selectionLayer s1 \<noteq> None \<and> svmLayer s1 = SelectionLayer then
        (case publishMeasurementsFromGraphics E M s1 graphics of
           (Some e, s2) \<Rightarrow> (Some e, endSelectionEdit True s2)
         | (None, s2) \<Rightarrow> (None, endSelectionEdit True (commitGeometry s2 graphics)))
      else
        (case persistEach E M (clearTempLabels s1) graphics st of
           (Some e, s2) \<Rightarrow> (Some e, s2)
         | (None, s2) \<Rightarrow> (None, setSelectedGraphicIds [] s2)))"

text \<open>
  The handler of \<open>svm.on('update')\<close>; \<open>evt.graphics ?? []\<close> is the list of the event.
  Without settings the handler returns at once, whatever the phase.
\<close>

definition onUpdate :: "env \<Rightarrow> units \<Rightarrow> sketch \<Rightarrow> update_event \<Rightarrow> outcome" where
  "onUpdate E M s evt =
     (case currentSettings s of
        None \<Rightarrow> (None, s)
      | Some st \<Rightarrow>
          if ueState evt = Active then updateActive E M s (ueGraphics evt) st
          else if ueState evt = Complete then updateComplete E M s (ueGraphics evt) st
          else if ueState evt = Cancel then
            (None, setSelectedGraphicIds [] (clearTempLabels (s\<lparr>isEditing := False\<rparr>)))
          else (None, s))"

section \<open>SketchService: the click handler\<close>

text \<open>
  The handler of \<open>view.on('click')\<close>, given the graphics the hit test returned. It does
  nothing while text is being placed or a marquee is drawn. Otherwise the first hit that
  lies on the text layer is cloned into a cleared selection layer, recorded in the clone
  map and handed to the view-model, and its measurements are published. The handler does
  not read the settings, and its \<open>catch\<close> swallows every error.
\<close>

definition onViewClick :: "env \<Rightarrow> units \<Rightarrow> sketch \<Rightarrow> gref list \<Rightarrow> sketch" where
  "onViewClick E M s hits =
     (if textClickHandler s \<or> selectionMode s \<noteq> None then s
      else case List.find (\<lambda>g. g \<in> set (textLayer s)) hits of
             None \<Rightarrow> s
           | Some src \<Rightarrow>
               (let s1 = prepareSelectionLayer True s;
                    (clone, s2) = cloneGraphic s1 src;
                    s3 = s2\<lparr>selectionLayer :=
                             Some ((case selectionLayer s2 of Some l \<Rightarrow> l | None \<Rightarrow> []) @ [clone]),
                           selectionMap := (selectionMap s2)(clone \<mapsto> src)\<rparr>;
                    s4 = s3\<lparr>svmLayer := SelectionLayer\<rparr>
                in snd (publishMeasurementsFromGraphics E M s4 [clone])))"


section \<open>Relations between states\<close>

text \<open>
  Two versions of a graphic with the same geometry, symbol and attributes, where an
  identifier that was attached is still attached (a missing or empty one may be replaced).
\<close>

definition sameShape :: "graphic \<Rightarrow> graphic \<Rightarrow> bool" where
  "sameShape g g' =
     (geometry g' = geometry g \<and> symbol g' = symbol g \<and> attributes g' = attributes g
      \<and> (sid g = None \<or> sid g = Some [] \<or> sid g' = sid g))"

text \<open>
  A step that may attach identifiers and publish, and changes nothing else.
\<close>

definition idsOnly :: "sketch \<Rightarrow> sketch \<Rightarrow> bool" where
  "idsOnly s s' =
     (nextRef s' = nextRef s \<and> drawLayer s' = drawLayer s \<and> labelLayer s' = labelLayer s
      \<and> textLayer s' = textLayer s \<and> tempLabels s' = tempLabels s
      \<and> selectionMode s' = selectionMode s \<and> isEditing s' = isEditing s
      \<and> selectionLayer s' = selectionLayer s \<and> selectionMap s' = selectionMap s
      \<and> svmLayer s' = svmLayer s \<and> labelIndex s' = labelIndex s
      \<and> currentSettings s' = currentSettings s
      \<and> (\<forall>r. sameShape (heap s r) (heap s' r)))"

text \<open>
  A step that keeps the label index, the draw and text layers, and the shape of every
  graphic that existed before it.
\<close>

definition sourcesKept :: "sketch \<Rightarrow> sketch \<Rightarrow> bool" where
  "sourcesKept s s' =
     (labelIndex s' = labelIndex s \<and> drawLayer s' = drawLayer s \<and> textLayer s' = textLayer s
      \<and> nextRef s \<le> nextRef s'
      \<and> (\<forall>r. r < nextRef s \<longrightarrow> sameShape (heap s r) (heap s' r)))"

text \<open>The same, with every graphic that existed before wholly unchanged.\<close>

definition existingKept :: "sketch \<Rightarrow> sketch \<Rightarrow> bool" where
  "existingKept s s' =
     (labelIndex s' = labelIndex s \<and> drawLayer s' = drawLayer s \<and> textLayer s' = textLayer s
      \<and> nextRef s \<le> nextRef s'
      \<and> (\<forall>r. r < nextRef s \<longrightarrow> heap s' r = heap s r))"

text \<open>A run of events through a handler; an error that escapes one event ends only that event.\<close>

definition runEvents :: "(sketch \<Rightarrow> 'e \<Rightarrow> outcome) \<Rightarrow> sketch \<Rightarrow> 'e list \<Rightarrow> sketch" where
  "runEvents handler s evts = foldl (\<lambda>t e. snd (handler t e)) s evts"


section \<open>Concrete inputs for the examples\<close>

text \<open>
  An environment with an identity projection, fixed engine results, and a clock and a random
  source that give the same reading every time (two calls within one millisecond that
  draw the same six characters).
\<close>

definition sampleEnv :: env where
  "sampleEnv =
     \<lparr>engGeodesicLength = (\<lambda>g u. Inr (Val (Fin 5))),
      engGeodesicArea = (\<lambda>g u. Inr (Val (Fin 12))),
      engPlanarArea = (\<lambda>g u. Inr (Val (Fin 12))),
      engDistance = (\<lambda>a b u. Inr (Val (Fin 3))),
      engIntersects = (\<lambda>a b. Inr True),
      geomCentroid = (\<lambda>g. Some (0, 0)),
      geomExtentCenter = (\<lambda>g. Some (0, 0)),
      viewToScreen = Some,
      viewToMap = Some,
      toFixed = (\<lambda>v d. case v of Fin r \<Rightarrow> Inr (if r = 3 then ''3.00'' else if r = 5 then ''5.00'' else ''12.00'')
                           | _ \<Rightarrow> Inr ''NaN''),
      dateNow = (\<lambda>k. 1700000000000),
      random36 = (\<lambda>k. ''0.k3j9x2m1p'')\<rparr>"

text \<open>The same environment with an engine whose geodesic length is NaN.\<close>

definition nanEnv :: env where
  "nanEnv = sampleEnv\<lparr>engGeodesicLength := (\<lambda>g u. Inr (Val NaN))\<rparr>"


text \<open>The initial value of the settings form in \<open>SidebarComponent\<close>.\<close>

definition defaultSettings :: DrawSettings where
  "defaultSettings =
     \<lparr>tool = ToolPolygon, fillColor = ''#0078ff'', fillOpacity = 0.2,
      outlineColor = ''#0078ff'', outlineWidth = 2,
      textSettings = \<lparr>content = ''Label'', fontFamily = ''Noto Sans'', fontSize = 12,
                      color = ''#1a1a1a'', haloColor = ''#ffffff'', haloSize = 2\<rparr>,
      labelSettings = \<lparr>showDuringDraw = True, showSegmentLengths = True, showTotals = True,
                       showCircleRadius = True, showTitle = True\<rparr>\<rparr>"

text \<open>The form's settings with totals and circle radius switched off.\<close>

definition plainSettings :: DrawSettings where
  "plainSettings =
     defaultSettings\<lparr>labelSettings := (labelSettings defaultSettings)
        \<lparr>showTotals := False, showCircleRadius := False\<rparr>\<rparr>"

definition blankGraphic :: graphic where
  "blankGraphic = \<lparr>geometry = None, symbol = None, attributes = None, sid = None\<rparr>"

text \<open>The service after \<open>initialize\<close> on empty layers, before any settings arrive.\<close>

definition initialSketch :: sketch where
  "initialSketch =
     \<lparr>heap = (\<lambda>r. blankGraphic), nextRef = 0, drawLayer = [], labelLayer = [], textLayer = [],
      tempLabels = [], textClickHandler = False, selectionMode = None, isEditing = False,
      selectionLayer = None, selectionMap = Map.empty, svmLayer = DrawLayer,
      labelIndex = Map.empty, currentSettings = None, ticks = 0, measurementsOut = [],
      selectedIdsOut = []\<rparr>"

text \<open>
  A drawn polyline with its identifier, and a marquee rectangle around it. In
  \<open>drawnSketch\<close> the line is persisted, \<open>startSelection\<close> has set the selection mode, and
  the view-model has just finished the marquee (graphic 1) on the draw layer.
\<close>

definition sourceLine :: graphic where
  "sourceLine =
     \<lparr>geometry = Some (Polyline [[(0, 0), (10, 0)]]), symbol = Some OtherSymbol,
      attributes = Some [''tool'' \<mapsto> ''polyline''], sid = Some ''g-1699999999999-abc123''\<rparr>"

definition marquee :: graphic where
  "marquee =
     \<lparr>geometry = Some (Polygon [[(- 1, - 1), (11, - 1), (11, 1), (- 1, 1), (- 1, - 1)]]),
      symbol = Some OtherSymbol, attributes = None, sid = None\<rparr>"

definition drawnSketch :: sketch where
  "drawnSketch =
     initialSketch\<lparr>heap := (heap initialSketch)(0 := sourceLine, 1 := marquee), nextRef := 2,
                   drawLayer := [0, 1], selectionMode := Some Rectangle,
                   currentSettings := Some defaultSettings\<rparr>"

text \<open>The joint-editing session that the completed marquee starts: graphic 2 clones the line.\<close>

definition sessionSketch :: sketch where
  "sessionSketch =
     snd (onCreate sampleEnv defaultUnits drawnSketch \<lparr>ceState = Complete, ceGraphic = Some 1\<rparr>)"

text \<open>The same session after the view-model has moved the clone.\<close>

definition editedSketch :: sketch where
  "editedSketch =
     sessionSketch\<lparr>heap := (heap sessionSketch)
        (2 := (heap sessionSketch 2)\<lparr>geometry := Some (Polyline [[(0, 5), (10, 5)]])\<rparr>)\<rparr>"

text \<open>A rectangle drawn with the rectangle tool, about to be completed.\<close>

definition rectangleShape :: graphic where
  "rectangleShape =
     \<lparr>geometry = Some (Polygon [[(0, 0), (4, 0), (4, 2), (0, 2), (0, 0)]]),
      symbol = Some OtherSymbol, attributes = None, sid = None\<rparr>"

definition rectangleSketch :: sketch where
  "rectangleSketch =
     initialSketch\<lparr>heap := (heap initialSketch)(0 := rectangleShape), nextRef := 1,
                   drawLayer := [0],
                   currentSettings := Some (defaultSettings\<lparr>tool := ToolRectangle\<rparr>)\<rparr>"

text \<open>
  A line that came from an imported file: it lies on the draw layer and has not been asked
  for an identifier yet. Settings were supplied earlier.
\<close>

definition importedLineSketch :: sketch where
  "importedLineSketch =
     initialSketch\<lparr>heap := (heap initialSketch)(0 := sourceLine\<lparr>sid := None\<rparr>), nextRef := 1,
                   drawLayer := [0], currentSettings := Some defaultSettings\<rparr>"






section \<open>Import versions\<close>

text \<open>
  C1. An object payload of version 2 yields the parsed draw, labels and text collections;
  version 1 yields the parsed draw and labels and an empty text collection; any other
  numeric version fails with the unsupported-version error, so no collection is returned.
\<close>

theorem importEsriJson_versions:
  fixes fromJSON :: "json \<Rightarrow> 'g"
  shows "(map_of fs ''version'' = Some (JNum (Fin 2)) \<longrightarrow>
            importEsriJson fromJSON (JObj fs) =
              Inr \<lparr>res_draw = parseGraphics fromJSON (field (JObj fs) ''draw''),
                   res_labels = parseGraphics fromJSON (field (JObj fs) ''labels''),
                   res_text = parseGraphics fromJSON (field (JObj fs) ''text'')\<rparr>)
       \<and> (map_of fs ''version'' = Some (JNum (Fin 1)) \<longrightarrow>
            importEsriJson fromJSON (JObj fs) =
              Inr \<lparr>res_draw = parseGraphics fromJSON (field (JObj fs) ''draw''),
                   res_labels = parseGraphics fromJSON (field (JObj fs) ''labels''),
                   res_text = []\<rparr>)
       \<and> (\<forall>n. map_of fs ''version'' = Some (JNum n) \<and> n \<noteq> Fin 1 \<and> n \<noteq> Fin 2 \<longrightarrow>
            importEsriJson fromJSON (JObj fs) = Inl (UnsupportedVersion (JNum n)))"
  by (simp add: importEsriJson_def)

theorem importEsriJson_versions_witness:
  "importEsriJson id
     (JObj [(''version'', JNum (Fin 2)), (''draw'', JArr [JStr ''a'']),
            (''labels'', JArr []), (''text'', JArr [JStr ''t''])])
     = Inr \<lparr>res_draw = [JStr ''a''], res_labels = [], res_text = [JStr ''t'']\<rparr>
   \<and> importEsriJson id
     (JObj [(''version'', JNum (Fin 1)), (''draw'', JArr [JStr ''a'']),
            (''labels'', JArr []), (''text'', JArr [JStr ''t''])])
     = Inr \<lparr>res_draw = [JStr ''a''], res_labels = [], res_text = []\<rparr>
   \<and> importEsriJson id
     (JObj [(''version'', JNum (Fin 3)), (''draw'', JArr [JStr ''a'']),
            (''labels'', JArr []), (''text'', JArr [JStr ''t''])])
     = Inl (UnsupportedVersion (JNum (Fin 3)))"
  using importEsriJson_versions [where fromJSON = id and
      fs = "[(''version'', JNum (Fin 2)), (''draw'', JArr [JStr ''a'']),
             (''labels'', JArr []), (''text'', JArr [JStr ''t''])]"]
    importEsriJson_versions [where fromJSON = id and
      fs = "[(''version'', JNum (Fin 1)), (''draw'', JArr [JStr ''a'']),
             (''labels'', JArr []), (''text'', JArr [JStr ''t''])]"]
    importEsriJson_versions [where fromJSON = id and
      fs = "[(''version'', JNum (Fin 3)), (''draw'', JArr [JStr ''a'']),
             (''labels'', JArr []), (''text'', JArr [JStr ''t''])]"]
  by simp

text \<open>
  C10. A non-null object payload without a version field is read as legacy version 1:
  parsed draw and labels, an empty text collection, and no unsupported-version error.
\<close>

theorem importEsriJson_missing_version:
  fixes fromJSON :: "json \<Rightarrow> 'g"
  shows "map_of fs ''version'' = None \<Longrightarrow>
           importEsriJson fromJSON (JObj fs) =
             Inr \<lparr>res_draw = parseGraphics fromJSON (field (JObj fs) ''draw''),
                  res_labels = parseGraphics fromJSON (field (JObj fs) ''labels''),
                  res_text = []\<rparr>"
  by (simp add: importEsriJson_def)

theorem importEsriJson_missing_version_witness:
  "importEsriJson id
     (JObj [(''draw'', JArr [JStr ''a'']), (''labels'', JArr [JStr ''l'']),
            (''text'', JArr [JStr ''t''])])
     = Inr \<lparr>res_draw = [JStr ''a''], res_labels = [JStr ''l''], res_text = []\<rparr>"
  using importEsriJson_missing_version [where fromJSON = id and
      fs = "[(''draw'', JArr [JStr ''a'']), (''labels'', JArr [JStr ''l'']),
             (''text'', JArr [JStr ''t''])]"]
  by simp

text \<open>The exporter writes version 2, and the importer reads back all three collections.\<close>

lemma import_of_export:
  "field (exportEsriJson toJSON ds ls ts) ''version'' = JNum (Fin 2)
   \<and> importEsriJson fromJSON (exportEsriJson toJSON ds ls ts)
       = Inr \<lparr>res_draw = map (fromJSON \<circ> toJSON) ds,
              res_labels = map (fromJSON \<circ> toJSON) ls,
              res_text = map (fromJSON \<circ> toJSON) ts\<rparr>"
  by (simp add: importEsriJson_def exportEsriJson_def)


section \<open>Exceptions: basic facts\<close>

lemma bindE_Inr [simp]: "bindE (Inr a) f = f a"
  by (simp add: bindE_def)

lemma bindE_Inl [simp]: "bindE (Inl e) f = Inl e"
  by (simp add: bindE_def)

lemma bindE_eq_Inr: "bindE m f = Inr b \<longleftrightarrow> (\<exists>a. m = Inr a \<and> f a = Inr b)"
  by (cases m) simp_all

lemma mapE_map:
  assumes "mapE f xs = Inr ys"
    and "\<And>x y. x \<in> set xs \<Longrightarrow> f x = Inr y \<Longrightarrow> h y = k x"
  shows "map h ys = map k xs"
  using assms
proof (induction xs arbitrary: ys)
  case Nil
  then show ?case by simp
next
  case (Cons x xs)
  from Cons.prems(1) obtain y zs where y: "f x = Inr y" and zs: "mapE f xs = Inr zs"
    and ys: "ys = y # zs"
    by (auto simp: bindE_eq_Inr)
  have "map h zs = map k xs"
    by (rule Cons.IH [OF zs]) (simp add: Cons.prems(2))
  moreover have "h y = k x"
    by (rule Cons.prems(2) [OF _ y]) simp
  ultimately show ?case by (simp add: ys)
qed

lemma mapE_length: "mapE f xs = Inr ys \<Longrightarrow> length ys = length xs"
  using mapE_map [of f xs ys "\<lambda>_. ()" "\<lambda>_. ()"] by (metis length_map)

section \<open>Geodesic length\<close>

text \<open>
  C5 as stated fails: an engine result of NaN comes back as NaN, not as 0.
\<close>

theorem geodesicLength_nan_counterexample:
  "geodesicLength nanEnv defaultUnits (Polyline [[(0, 0), (1, 1)]]) = Inr NaN
   \<and> geodesicLength nanEnv defaultUnits (Polyline [[(0, 0), (1, 1)]]) \<noteq> Inr (Fin 0)"
  by (simp add: geodesicLength_def nanEnv_def)

text \<open>
  C5, amended. When the engine returns a number, finite or not, the length operation
  returns that number as its value: a non-finite result reaches the caller as a value,
  not as an error. When the engine returns \<open>null\<close> or \<open>undefined\<close>, the length operation
  returns 0.
\<close>

theorem geodesicLength_passes_engine_result:
  "(\<forall>v. engGeodesicLength E geom (lengthUnit M) = Inr (Val v) \<longrightarrow> geodesicLength E M geom = Inr v)
   \<and> (engGeodesicLength E geom (lengthUnit M) = Inr Null \<longrightarrow> geodesicLength E M geom = Inr (Fin 0))
   \<and> (engGeodesicLength E geom (lengthUnit M) = Inr Undefined \<longrightarrow> geodesicLength E M geom = Inr (Fin 0))"
  by (simp add: geodesicLength_def)

theorem geodesicLength_passes_engine_result_witness:
  "geodesicLength sampleEnv defaultUnits (Polyline [[(0, 0), (1, 1)]]) = Inr (Fin 5)
   \<and> geodesicLength (sampleEnv\<lparr>engGeodesicLength := (\<lambda>g u. Inr (Val PosInf))\<rparr>) defaultUnits
        (Polyline [[(0, 0), (1, 1)]]) = Inr PosInf
   \<and> geodesicLength (sampleEnv\<lparr>engGeodesicLength := (\<lambda>g u. Inr Null)\<rparr>) defaultUnits
        (Polyline [[(0, 0), (1, 1)]]) = Inr (Fin 0)
   \<and> geodesicLength (sampleEnv\<lparr>engGeodesicLength := (\<lambda>g u. Inr Undefined)\<rparr>) defaultUnits
        (Polyline [[(0, 0), (1, 1)]]) = Inr (Fin 0)"
  using geodesicLength_passes_engine_result
      [of sampleEnv "Polyline [[(0, 0), (1, 1)]]" defaultUnits]
    geodesicLength_passes_engine_result
      [of "sampleEnv\<lparr>engGeodesicLength := (\<lambda>g u. Inr (Val PosInf))\<rparr>" "Polyline [[(0, 0), (1, 1)]]" defaultUnits]
    geodesicLength_passes_engine_result
      [of "sampleEnv\<lparr>engGeodesicLength := (\<lambda>g u. Inr Null)\<rparr>" "Polyline [[(0, 0), (1, 1)]]" defaultUnits]
    geodesicLength_passes_engine_result
      [of "sampleEnv\<lparr>engGeodesicLength := (\<lambda>g u. Inr Undefined)\<rparr>" "Polyline [[(0, 0), (1, 1)]]" defaultUnits]
  by (simp add: sampleEnv_def)


section \<open>Segment label angles\<close>

text \<open>The function \<open>atan2\<close> returns the polar angle of its argument, in \<open>(-\<pi>, \<pi>]\<close>.\<close>

lemma atan2_right: "0 < dx \<Longrightarrow> atan2 dy dx = arctan (dy / dx)"
  by (simp add: atan2_def)

lemma atan2_left_up: "dx < 0 \<Longrightarrow> 0 \<le> dy \<Longrightarrow> atan2 dy dx = arctan (dy / dx) + pi"
  by (simp add: atan2_def)

lemma atan2_left_down: "dx < 0 \<Longrightarrow> dy < 0 \<Longrightarrow> atan2 dy dx = arctan (dy / dx) - pi"
  by (simp add: atan2_def)

lemma atan2_polar:
  assumes r: "0 < r" and lo: "- pi < t" and hi: "t \<le> pi"
  shows "atan2 (r * sin t) (r * cos t) = t"
proof -
  have quot: "r * sin t / (r * cos t) = tan t"
    using r by (simp add: tan_def)
  consider (mid) "- (pi / 2) < t" "t < pi / 2" | (up) "pi / 2 < t" | (down) "t < - (pi / 2)"
    | (top) "t = pi / 2" | (bot) "t = - (pi / 2)"
    by linarith
  then show ?thesis
  proof cases
    case mid
    then have "0 < cos t" by (rule cos_gt_zero_pi)
    then have "0 < r * cos t" using r by simp
    then have "atan2 (r * sin t) (r * cos t) = arctan (r * sin t / (r * cos t))"
      by (rule atan2_right)
    also have "\<dots> = arctan (tan t)" by (simp only: quot)
    also have "\<dots> = t" using mid by (simp add: arctan_tan)
    finally show ?thesis .
  next
    case up
    have c: "0 < cos (t - pi)" using up hi by (intro cos_gt_zero_pi) linarith+
    have "cos (t - pi) = - cos t" by (simp add: cos_diff)
    then have dx: "r * cos t < 0" using c r by (simp add: mult_pos_neg)
    have "0 \<le> sin t" using up hi pi_gt_zero by (intro sin_ge_zero) linarith+
    then have dy: "0 \<le> r * sin t" using r by simp
    have "tan (t - pi) = tan t" using tan_periodic_pi [of "t - pi"] by simp
    moreover have "arctan (tan (t - pi)) = t - pi"
      using up hi by (intro arctan_tan) linarith+
    ultimately have a: "arctan (tan t) = t - pi" by simp
    have "atan2 (r * sin t) (r * cos t) = arctan (r * sin t / (r * cos t)) + pi"
      using dx dy by (rule atan2_left_up)
    also have "\<dots> = arctan (tan t) + pi" by (simp only: quot)
    finally show ?thesis using a by simp
  next
    case down
    have c: "0 < cos (t + pi)" using down lo by (intro cos_gt_zero_pi) linarith+
    have "cos (t + pi) = - cos t" by (simp add: cos_add)
    then have dx: "r * cos t < 0" using c r by (simp add: mult_pos_neg)
    have s: "0 < sin (t + pi)" using down lo pi_gt_zero by (intro sin_gt_zero) linarith+
    have "sin (t + pi) = - sin t" by (simp add: sin_add)
    then have dy: "r * sin t < 0" using s r by (simp add: mult_pos_neg)
    have "tan (t + pi) = tan t" by (rule tan_periodic_pi)
    moreover have "arctan (tan (t + pi)) = t + pi"
      using down lo by (intro arctan_tan) linarith+
    ultimately have a: "arctan (tan t) = t + pi" by simp
    have "atan2 (r * sin t) (r * cos t) = arctan (r * sin t / (r * cos t)) - pi"
      using dx dy by (rule atan2_left_down)
    also have "\<dots> = arctan (tan t) - pi" by (simp only: quot)
    finally show ?thesis using a by simp
  next
    case top
    have "cos t = 0" "sin t = 1" unfolding top by simp_all
    then have "atan2 (r * sin t) (r * cos t) = pi / 2" using r by (simp add: atan2_def)
    then show ?thesis unfolding top .
  next
    case bot
    have "cos t = 0" "sin t = - 1" unfolding bot by simp_all
    then have "atan2 (r * sin t) (r * cos t) = - pi / 2" using r by (simp add: atan2_def)
    then show ?thesis unfolding bot by simp
  qed
qed

lemma atan2_bounds: "- pi < atan2 dy dx \<and> atan2 dy dx \<le> pi"
proof -
  have lo: "- (pi / 2) < arctan (dy / dx)" and hi: "arctan (dy / dx) < pi / 2"
    using arctan_lbound [of "dy / dx"] arctan_ubound [of "dy / dx"] by blast+
  have p: "0 < pi" by (rule pi_gt_zero)
  consider (pos) "dx > 0" | (negup) "dx < 0" "dy \<ge> 0" | (negdown) "dx < 0" "dy < 0" | (zero) "dx = 0"
    by linarith
  then show ?thesis
  proof cases
    case pos
    then have "atan2 dy dx = arctan (dy / dx)" by (simp add: atan2_def)
    with lo hi p show ?thesis by linarith
  next
    case negup
    then have "dy / dx \<le> 0" by (simp add: divide_nonneg_neg)
    then have "arctan (dy / dx) \<le> 0" by simp
    moreover from negup have "atan2 dy dx = arctan (dy / dx) + pi" by (simp add: atan2_def)
    ultimately show ?thesis using lo p by linarith
  next
    case negdown
    then have "0 < dy / dx" by (simp add: divide_neg_neg)
    then have "0 < arctan (dy / dx)" by simp
    moreover from negdown have "atan2 dy dx = arctan (dy / dx) - pi" by (simp add: atan2_def)
    ultimately show ?thesis using hi p by linarith
  next
    case zero
    then have "atan2 dy dx = pi / 2 \<or> atan2 dy dx = - pi / 2 \<or> atan2 dy dx = 0"
      by (simp add: atan2_def)
    with p show ?thesis by linarith
  qed
qed

lemma getSegmentAngle_bounds: "- 180 < getSegmentAngle seg \<and> getSegmentAngle seg \<le> 180"
proof -
  obtain x1 y1 x2 y2 where seg: "seg = ((x1, y1), (x2, y2))"
    by (metis surj_pair)
  have a: "- pi < atan2 (y2 - y1) (x2 - x1)" "atan2 (y2 - y1) (x2 - x1) \<le> pi"
    using atan2_bounds by simp_all
  have "- 180 < atan2 (y2 - y1) (x2 - x1) * 180 / pi"
    using a(1) pi_gt_zero by (simp add: field_simps)
  moreover have "atan2 (y2 - y1) (x2 - x1) * 180 / pi \<le> 180"
    using a(2) pi_gt_zero by (simp add: field_simps)
  ultimately show ?thesis by (simp add: seg)
qed

lemma normalizeAngle_range:
  "- 180 \<le> a \<Longrightarrow> a \<le> 180 \<Longrightarrow> - 90 \<le> normalizeAngle a \<and> normalizeAngle a \<le> 90"
  by (simp add: normalizeAngle_def)

lemma labelAngle_addText: "labelAngle (addText st p t a) = a"
  by (simp add: labelAngle_def addText_def)


lemma consecutive_index:
  "consecutive path = map (\<lambda>i. (path ! i, path ! Suc i)) [0..<length path - 1]"
proof (induction path rule: consecutive.induct)
  case (1 a b xs)
  have "map (\<lambda>i. ((a # b # xs) ! i, (a # b # xs) ! Suc i)) [0..<Suc (length xs)]
      = (a, b) # map (\<lambda>i. ((b # xs) ! i, (b # xs) ! Suc i)) [0..<length xs]"
    by (simp add: map_upt_Suc del: upt_Suc)
  then show ?case using 1 by simp
qed simp_all

lemma getSegmentAngle_coords:
  "getSegmentAngle seg
     = atan2 (snd (snd seg) - snd (fst seg)) (fst (snd seg) - fst (fst seg)) * 180 / pi"
  by (cases seg rule: getSegmentAngle.cases) simp

lemma segmentLabels_angles:
  assumes "segmentLabels E M geom st = Inr segs"
  shows "map labelAngle segs
           = map (\<lambda>seg. normalizeAngle (getSegmentAngle seg)) (getSegments geom)"
proof -
  from assms obtain lens where lens: "segmentLengths E M geom = Inr lens"
    and made: "mapE (\<lambda>(segment, len).
               let midpoint = getSegmentMidpoint segment;
                   angle = normalizeAngle (getSegmentAngle segment);
                   angleRad = (angle + 90) * (pi / 180);
                   dxPx = 10 * cos angleRad;
                   dyPx = 10 * sin angleRad;
                   offsetMidpoint = offsetPoint E midpoint dxPx dyPx
               in bindE (formatLength E M len) (\<lambda>txt. Inr (addText st offsetMidpoint txt angle)))
            (zip (getSegments geom) lens) = Inr segs"
    by (auto simp: segmentLabels_def bindE_eq_Inr)
  have len: "length lens = length (getSegments geom)"
    using lens by (simp add: segmentLengths_def getSegments_def mapE_length)
  have "map labelAngle segs
      = map (\<lambda>(seg, len). normalizeAngle (getSegmentAngle seg)) (zip (getSegments geom) lens)"
    by (rule mapE_map [OF made]) (auto simp: Let_def bindE_eq_Inr labelAngle_addText)
  also have "\<dots> = map (\<lambda>seg. normalizeAngle (getSegmentAngle seg)) (map fst (zip (getSegments geom) lens))"
    by (simp add: split_def comp_def)
  also have "map fst (zip (getSegments geom) lens) = getSegments geom"
    by (simp add: len)
  finally show ?thesis .
qed

lemma makeLabels_segment_prefix:
  assumes "showSegmentLengths (labelSettings st)" and "\<not> isPoint geom"
    and "makeLabelsForGeometry E M geom st = Inr lbls"
  shows "\<exists>segs. segmentLabels E M geom st = Inr segs
           \<and> take (length (getSegments geom)) lbls = segs"
proof -
  from assms obtain segs centre where segs: "segmentLabels E M geom st = Inr segs"
    and lbls: "lbls = segs @ centre"
    by (cases geom) (auto simp: makeLabelsForGeometry_def bindE_eq_Inr)
  have "length segs = length (getSegments geom)"
    using segmentLabels_angles [OF segs] by (metis length_map)
  then show ?thesis using segs lbls by simp
qed

text \<open>
  C8. When segment labels are shown and label generation returns, the first labels it
  returns are the segment labels, one per edge in order, and the angle stored in the label
  of the edge from \<open>(x1, y1)\<close> to \<open>(x2, y2)\<close> is the bearing \<open>atan2 (y2 - y1) (x2 - x1)\<close>
  in degrees, less 180 when it exceeds 90 and plus 180 when it is below -90; every stored
  angle lies in \<open>[-90, 90]\<close>. The edges are the pairs of consecutive vertices of each path
  or ring. \<open>atan2\<close> is the polar angle: for a direction at \<open>t\<close> radians, \<open>-\<pi> < t \<le> \<pi>\<close>, it
  returns \<open>t\<close>. In particular an edge of any positive length at a bearing of 170 degrees,
  from any start point, has the stored label angle -10.
\<close>

theorem segment_label_angle_normalized:
  "(\<forall>lbls. showSegmentLengths (labelSettings st) \<and> \<not> isPoint geom
        \<and> makeLabelsForGeometry E M geom st = Inr lbls \<longrightarrow>
      map labelAngle (take (length (getSegments geom)) lbls)
        = map (\<lambda>((x1, y1), (x2, y2)).
                 let b = atan2 (y2 - y1) (x2 - x1) * 180 / pi
                 in if b > 90 then b - 180 else if b < - 90 then b + 180 else b)
              (getSegments geom)
      \<and> (\<forall>a\<in>set (map labelAngle (take (length (getSegments geom)) lbls)). - 90 \<le> a \<and> a \<le> 90))
   \<and> getSegments geom
       = concat (map (\<lambda>path. map (\<lambda>i. (path ! i, path ! Suc i)) [0..<length path - 1])
                     (pathsOrRings geom))
   \<and> (\<forall>r t. 0 < r \<and> - pi < t \<and> t \<le> pi \<longrightarrow> atan2 (r * sin t) (r * cos t) = t)
   \<and> (\<forall>x y r lbls. 0 < r \<and> showSegmentLengths (labelSettings st)
        \<and> makeLabelsForGeometry E M
             (Polyline [[(x, y), (x + r * cos (17 * pi / 18), y + r * sin (17 * pi / 18))]]) st
            = Inr lbls \<longrightarrow>
        map labelAngle (take 1 lbls) = [- 10])"
proof (intro conjI allI impI)
  fix lbls
  assume a: "showSegmentLengths (labelSettings st) \<and> \<not> isPoint geom
        \<and> makeLabelsForGeometry E M geom st = Inr lbls"
  then obtain segs where segs: "segmentLabels E M geom st = Inr segs"
    and tk: "take (length (getSegments geom)) lbls = segs"
    using makeLabels_segment_prefix [of st geom E M lbls] by blast
  have ang: "map labelAngle (take (length (getSegments geom)) lbls)
      = map (\<lambda>seg. normalizeAngle (getSegmentAngle seg)) (getSegments geom)"
    using segmentLabels_angles [OF segs] tk by simp
  show "map labelAngle (take (length (getSegments geom)) lbls)
        = map (\<lambda>((x1, y1), (x2, y2)).
                 let b = atan2 (y2 - y1) (x2 - x1) * 180 / pi
                 in if b > 90 then b - 180 else if b < - 90 then b + 180 else b)
              (getSegments geom)"
    unfolding ang by (rule map_cong) (auto simp: normalizeAngle_def Let_def)
  show "\<forall>a\<in>set (map labelAngle (take (length (getSegments geom)) lbls)). - 90 \<le> a \<and> a \<le> 90"
    unfolding ang using getSegmentAngle_bounds normalizeAngle_range
    by (auto simp: less_imp_le)
next
  show "getSegments geom
       = concat (map (\<lambda>path. map (\<lambda>i. (path ! i, path ! Suc i)) [0..<length path - 1])
                     (pathsOrRings geom))"
    unfolding getSegments_def by (rule arg_cong [where f = concat]) (simp add: consecutive_index)
next
  fix r t :: real
  assume "0 < r \<and> - pi < t \<and> t \<le> pi"
  then show "atan2 (r * sin t) (r * cos t) = t" by (simp add: atan2_polar)
next
  fix x y r :: real and lbls
  assume a: "0 < r \<and> showSegmentLengths (labelSettings st)
        \<and> makeLabelsForGeometry E M
             (Polyline [[(x, y), (x + r * cos (17 * pi / 18), y + r * sin (17 * pi / 18))]]) st
            = Inr lbls"
  let ?g = "Polyline [[(x, y), (x + r * cos (17 * pi / 18), y + r * sin (17 * pi / 18))]]"
  have seg: "getSegments ?g = [((x, y), (x + r * cos (17 * pi / 18), y + r * sin (17 * pi / 18)))]"
    by (simp add: getSegments_def)
  from a obtain segs where segs: "segmentLabels E M ?g st = Inr segs"
    and tk: "take (length (getSegments ?g)) lbls = segs"
    using makeLabels_segment_prefix [of st ?g E M lbls] by auto
  have "atan2 (r * sin (17 * pi / 18)) (r * cos (17 * pi / 18)) = 17 * pi / 18"
    using a pi_gt_zero by (intro atan2_polar) simp_all
  then have "getSegmentAngle ((x, y), (x + r * cos (17 * pi / 18), y + r * sin (17 * pi / 18)))
      = 17 * pi / 18 * 180 / pi"
    by (simp only: getSegmentAngle.simps add_diff_cancel_left')
  then have "getSegmentAngle ((x, y), (x + r * cos (17 * pi / 18), y + r * sin (17 * pi / 18))) = 170"
    by simp
  then have "map labelAngle segs = [- 10]"
    using segmentLabels_angles [OF segs] by (simp add: seg normalizeAngle_def)
  then show "map labelAngle (take 1 lbls) = [- 10]"
    using tk by (simp add: seg)
qed

theorem segment_label_angle_normalized_witness:
  "(case makeLabelsForGeometry sampleEnv defaultUnits
           (Polyline [[(0, 0), (cos (17 * pi / 18), sin (17 * pi / 18))]]) defaultSettings of
      Inl e \<Rightarrow> []
    | Inr lbls \<Rightarrow> map labelAngle (take 1 lbls)) = [- 10]
   \<and> (case makeLabelsForGeometry sampleEnv defaultUnits
           (Polygon [[(0, 0), (4, 0), (4, 2), (0, 2), (0, 0)]]) defaultSettings of
      Inl e \<Rightarrow> []
    | Inr lbls \<Rightarrow> map labelAngle (take 4 lbls)) = [0, 90, 0, - 90]"
proof -
  have "\<exists>lbls. makeLabelsForGeometry sampleEnv defaultUnits
           (Polyline [[(0, 0), (cos (17 * pi / 18), sin (17 * pi / 18))]]) defaultSettings = Inr lbls"
    by (simp add: makeLabelsForGeometry_def segmentLabels_def segmentLengths_def
        getSegments_def geodesicLength_def formatLength_def polylineCenterLines_def
        labelAnchor_def centroidLabelPoint_def sampleEnv_def defaultSettings_def
        defaultUnits_def Let_def)
  then obtain lbls where l: "makeLabelsForGeometry sampleEnv defaultUnits
           (Polyline [[(0, 0), (cos (17 * pi / 18), sin (17 * pi / 18))]]) defaultSettings = Inr lbls"
    by blast
  have "\<exists>lbls. makeLabelsForGeometry sampleEnv defaultUnits
           (Polygon [[(0, 0), (4, 0), (4, 2), (0, 2), (0, 0)]]) defaultSettings = Inr lbls"
    by (simp add: makeLabelsForGeometry_def segmentLabels_def segmentLengths_def
        getSegments_def geodesicLength_def formatLength_def formatArea_def polygonCenterLines_def
        geodesicArea_def geodesicPerimeter_def radiusFromPolygon_def
        labelAnchor_def centroidLabelPoint_def sampleEnv_def defaultSettings_def
        defaultUnits_def Let_def)
  then obtain rect where r: "makeLabelsForGeometry sampleEnv defaultUnits
           (Polygon [[(0, 0), (4, 0), (4, 2), (0, 2), (0, 0)]]) defaultSettings = Inr rect"
    by blast
  have st: "showSegmentLengths (labelSettings defaultSettings)"
    by (simp add: defaultSettings_def)
  have a: "map labelAngle (take 1 lbls) = [- 10]"
    using segment_label_angle_normalized
        [of defaultSettings "Polyline [[(0, 0), (cos (17 * pi / 18), sin (17 * pi / 18))]]"
           sampleEnv defaultUnits, THEN conjunct2, THEN conjunct2, THEN conjunct2,
         rule_format, of 1 0 0 lbls] st l
    by simp
  have segs: "getSegments (Polygon [[(0, 0), (4, 0), (4, 2), (0, 2), (0, 0)]])
      = [((0, 0), (4, 0)), ((4, 0), (4, 2)), ((4, 2), (0, 2)), ((0, 2), (0, 0))]"
    by (simp add: getSegments_def)
  have b: "map labelAngle (take 4 rect) = [0, 90, 0, - 90]"
    using segment_label_angle_normalized
        [of defaultSettings "Polygon [[(0, 0), (4, 0), (4, 2), (0, 2), (0, 0)]]"
           sampleEnv defaultUnits, THEN conjunct1, rule_format, of rect, THEN conjunct1] st r
    by (simp add: segs atan2_def Let_def eval_nat_numeral)
  show ?thesis using a b by (simp add: l r)
qed


section \<open>Title separation\<close>

text \<open>
  C9 as stated fails for a polygon with neither totals nor radius shown: the code leaves
  the separation at 0, the stated formula gives \<open>round(((0 + 1) / 2) * 12) = 6\<close>. For a
  polyline with totals the step is \<open>round(fontSize * 1.0) = 12\<close>, not the centre block's
  line height \<open>round(fontSize * 1.2) = 14\<close>.
\<close>

theorem titleSep_polygon_counterexample:
  "titleSep (Polygon [[(0, 0), (1, 0), (1, 1), (0, 0)]]) plainSettings = 0
   \<and> mathRound (((real (measurementLines plainSettings) + 1) / 2) * spacing plainSettings) = 6
   \<and> titleSep (Polyline [[(0, 0), (1, 0)]]) defaultSettings = 12
   \<and> lineHeight defaultSettings = 14"
  by (simp add: titleSep_def measurementLines_def spacing_def lineHeight_def mathRound_def
      defaultSettings_def plainSettings_def)

text \<open>
  C9, amended. The separation of the standalone title is \<open>spacing = round(fontSize * 1.0)\<close>
  for a polyline with totals shown and 0 for a polyline without; for a polygon it is
  \<open>round(((n + 1) / 2) * spacing)\<close> when the number \<open>n\<close> of measurement lines (2 for totals
  plus 1 for the radius) is positive and 0 when \<open>n = 0\<close>; for a point it is 0. The title is
  placed at the anchor moved up by that many pixels (at the anchor itself when it is 0).
\<close>

theorem titleSep_cases:
  "titleSep (Polyline ps) st
     = (if showTotals (labelSettings st) then mathRound (fontSize (textSettings st) * 1.0) else 0)
   \<and> titleSep (Polygon rs) st
     = (if (if showTotals (labelSettings st) then 2 else 0)
           + (if showCircleRadius (labelSettings st) then 1 else (0::nat)) > 0
        then mathRound (((real ((if showTotals (labelSettings st) then 2 else 0)
                                + (if showCircleRadius (labelSettings st) then 1 else 0)) + 1) / 2)
                        * mathRound (fontSize (textSettings st) * 1.0))
        else 0)
   \<and> titleSep (Point p) st = 0
   \<and> (\<forall>basePt. titleBasePoint E geom = Some basePt \<longrightarrow>
        fst (placeTitleLabel E s geom st) = Some (nextRef s)
        \<and> geometry (heap (snd (placeTitleLabel E s geom st)) (nextRef s))
            = Some (Point (if titleSep geom st \<noteq> 0
                           then offsetPoint E basePt 0 (- titleSep geom st) else basePt)))"
  by (simp add: titleSep_def spacing_def measurementLines_def placeTitleLabel_def Let_def
      alloc_def titleGraphic_def)

theorem titleSep_cases_witness:
  "titleSep (Polyline [[(0, 0), (1, 0)]]) defaultSettings = 12
   \<and> titleSep (Polygon [[(0, 0), (1, 0), (1, 1), (0, 0)]]) defaultSettings = 24
   \<and> titleSep (Point (0, 0)) defaultSettings = 0
   \<and> geometry (heap (snd (placeTitleLabel sampleEnv initialSketch
          (Polygon [[(0, 0), (1, 0), (1, 1), (0, 0)]]) defaultSettings)) 0)
        = Some (Point (0, - 24))"
proof -
  have base: "titleBasePoint sampleEnv (Polygon [[(0, 0), (1, 0), (1, 1), (0, 0)]]) = Some (0, 0)"
    by (simp add: titleBasePoint_def labelAnchor_def centroidLabelPoint_def sampleEnv_def)
  have nr: "nextRef initialSketch = 0"
    by (simp add: initialSketch_def)
  have off: "offsetPoint sampleEnv (0, 0) 0 (- 24) = (0, - 24)"
    by (simp add: offsetPoint_def sampleEnv_def)
  have r: "mathRound 12 = 12" "mathRound 24 = 24"
    by (simp_all add: mathRound_def)
  show ?thesis
    using titleSep_cases [of "[[(0, 0), (1, 0)]]" defaultSettings
        "[[(0, 0), (1, 0), (1, 1), (0, 0)]]" "(0, 0)" sampleEnv
        "Polygon [[(0, 0), (1, 0), (1, 1), (0, 0)]]" initialSketch] base
    by (simp add: nr off r defaultSettings_def)
qed


section \<open>Identifiers of graphics\<close>

lemma showNat_small: "n < 10 \<Longrightarrow> showNat n = [digitChar n]"
  by (simp add: showNat.simps)

lemma showNat_big: "10 \<le> n \<Longrightarrow> showNat n = showNat (n div 10) @ [digitChar (n mod 10)]"
  by (subst showNat.simps) simp

lemma digit_cases: "d < 10 \<Longrightarrow> d = 0 \<or> d = 1 \<or> d = 2 \<or> d = 3 \<or> d = 4 \<or> d = 5 \<or> d = 6 \<or> d = 7 \<or> d = 8 \<or> d = (9::nat)"
  by arith

lemma digitChar_inj: "d < 10 \<Longrightarrow> e < 10 \<Longrightarrow> digitChar d = digitChar e \<Longrightarrow> d = e"
  using digit_cases [of d] digit_cases [of e]
  by (auto simp: digitChar_def)

lemma digitChar_not_dash: "d < 10 \<Longrightarrow> digitChar d \<noteq> CHR ''-''"
  using digit_cases [of d] by (auto simp: digitChar_def)

lemma showNat_nonempty: "showNat n \<noteq> []"
  by (subst showNat.simps) simp

lemma showNat_no_dash: "CHR ''-'' \<notin> set (showNat n)"
proof (induction n rule: showNat.induct)
  case (1 n)
  show ?case
  proof (cases "n < 10")
    case True
    then show ?thesis using digitChar_not_dash [of n] by (simp add: showNat_small)
  next
    case False
    then show ?thesis using 1 digitChar_not_dash [of "n mod 10"]
      by (simp add: showNat_big)
  qed
qed

lemma showNat_inj: "showNat n = showNat m \<Longrightarrow> n = m"
proof (induction n arbitrary: m rule: showNat.induct)
  case (1 n)
  show ?case
  proof (cases "n < 10")
    case True
    note n = this
    show ?thesis
    proof (cases "m < 10")
      case True
      with n 1(2) show ?thesis by (simp add: showNat_small digitChar_inj)
    next
      case False
      with n 1(2) showNat_nonempty [of "m div 10"] show ?thesis
        by (simp add: showNat_small showNat_big)
    qed
  next
    case False
    note n = this
    show ?thesis
    proof (cases "m < 10")
      case True
      with n 1(2) showNat_nonempty [of "n div 10"] show ?thesis
        by (simp add: showNat_small showNat_big)
    next
      case False
      with n 1(2) have eq: "showNat (n div 10) = showNat (m div 10)"
        and d: "digitChar (n mod 10) = digitChar (m mod 10)"
        by (simp_all add: showNat_big)
      from 1(1) [OF n eq] have "n div 10 = m div 10" .
      moreover from d have "n mod 10 = m mod 10" by (simp add: digitChar_inj)
      ultimately show ?thesis by (metis div_mult_mod_eq)
    qed
  qed
qed

lemma split_at_dash:
  assumes "xs @ CHR ''-'' # ys = xs' @ CHR ''-'' # ys'"
    and "CHR ''-'' \<notin> set xs" and "CHR ''-'' \<notin> set xs'"
  shows "xs = xs' \<and> ys = ys'"
  using assms
proof (induction xs arbitrary: xs')
  case Nil
  then show ?case by (cases xs') auto
next
  case (Cons a xs)
  then show ?case by (cases xs') auto
qed

lemma newId_eq_iff:
  "newId n r = newId n' r' \<longleftrightarrow> n = n' \<and> take 6 (drop 2 r) = take 6 (drop 2 r')"
proof
  assume "newId n r = newId n' r'"
  then have "showNat n @ CHR ''-'' # take 6 (drop 2 r) = showNat n' @ CHR ''-'' # take 6 (drop 2 r')"
    by (simp add: newId_def)
  then have "showNat n = showNat n' \<and> take 6 (drop 2 r) = take 6 (drop 2 r')"
    by (rule split_at_dash) (simp_all add: showNat_no_dash)
  then show "n = n' \<and> take 6 (drop 2 r) = take 6 (drop 2 r')"
    by (simp add: showNat_inj)
next
  assume "n = n' \<and> take 6 (drop 2 r) = take 6 (drop 2 r')"
  then show "newId n r = newId n' r'" by (simp add: newId_def)
qed

lemma newId_nonempty: "newId n r \<noteq> []"
  by (simp add: newId_def)

lemma getGraphicId_idem:
  "getGraphicId E (snd (getGraphicId E s g)) g = (fst (getGraphicId E s g), snd (getGraphicId E s g))"
  by (simp add: getGraphicId_def Let_def newId_nonempty split: option.splits)

lemma getGraphicId_fresh:
  "sid (heap s g) = None \<Longrightarrow> fst (getGraphicId E s g) = newId (dateNow E (ticks s)) (random36 E (ticks s))"
  by (simp add: getGraphicId_def Let_def)

text \<open>
  C7 as stated fails in its second half: two shapes that ask for an identifier within the
  same millisecond and draw the same six random characters receive the same identifier.
  Shape 1 has no identifier yet, and its fresh one is the one shape 0 already holds.
\<close>

theorem getGraphicId_collision_counterexample:
  "sid (heap (snd (getGraphicId sampleEnv initialSketch 0)) 1) = None
   \<and> sid (heap (snd (getGraphicId sampleEnv initialSketch 0)) 0)
       = Some (fst (getGraphicId sampleEnv (snd (getGraphicId sampleEnv initialSketch 0)) 1))
   \<and> fst (getGraphicId sampleEnv (snd (getGraphicId sampleEnv initialSketch 0)) 1)
       = ''g-1700000000000-k3j9x2''"
  by (simp add: getGraphicId_def Let_def initialSketch_def blankGraphic_def sampleEnv_def
      newId_def showNat_small showNat_big digitChar_def)

text \<open>
  C7, amended. Calling the accessor again on the state it left returns the same identifier
  and leaves the state as it is. A shape without identifier receives
  \<open>g-<clock>-<six base-36 characters>\<close>; two such identifiers are equal exactly when both
  the clock reading and the six characters agree, and nothing else keeps a fresh identifier
  apart from those already assigned.
\<close>

theorem getGraphicId_stable:
  "getGraphicId E (snd (getGraphicId E s g)) g = getGraphicId E s g
   \<and> (sid (heap s g) = None \<longrightarrow>
        fst (getGraphicId E s g) = newId (dateNow E (ticks s)) (random36 E (ticks s)))
   \<and> (newId n r = newId n' r' \<longleftrightarrow> n = n' \<and> take 6 (drop 2 r) = take 6 (drop 2 r'))"
  using getGraphicId_idem [of E s g] getGraphicId_fresh [of s g E] newId_eq_iff [of n r n' r']
  by simp

theorem getGraphicId_stable_witness:
  "getGraphicId sampleEnv (snd (getGraphicId sampleEnv initialSketch 0)) 0
     = getGraphicId sampleEnv initialSketch 0
   \<and> fst (getGraphicId sampleEnv initialSketch 0) = newId 1700000000000 ''0.k3j9x2m1p''
   \<and> newId 1700000000000 ''0.k3j9x2m1p'' \<noteq> newId 1700000000001 ''0.k3j9x2m1p''"
proof -
  have none: "sid (heap initialSketch 0) = None"
    by (simp add: initialSketch_def blankGraphic_def)
  have env: "dateNow sampleEnv (ticks initialSketch) = 1700000000000"
    "random36 sampleEnv (ticks initialSketch) = ''0.k3j9x2m1p''"
    by (simp_all add: sampleEnv_def)
  show ?thesis
    using getGraphicId_stable [of sampleEnv initialSketch 0 1700000000000 "''0.k3j9x2m1p''"
        1700000000001 "''0.k3j9x2m1p''"] none
    by (simp add: env)
qed


section \<open>Cancel and active phases\<close>

lemma sameShape_refl: "sameShape g g"
  by (simp add: sameShape_def)

lemma sameShape_trans: "sameShape a b \<Longrightarrow> sameShape b c \<Longrightarrow> sameShape a c"
  by (auto simp: sameShape_def)

lemma idsOnly_refl: "idsOnly s s"
  by (simp add: idsOnly_def sameShape_refl)

lemma idsOnly_trans: "idsOnly a b \<Longrightarrow> idsOnly b c \<Longrightarrow> idsOnly a c"
  unfolding idsOnly_def by (auto intro: sameShape_trans)

lemma sourcesKept_refl: "sourcesKept s s"
  by (simp add: sourcesKept_def sameShape_refl)

lemma sourcesKept_trans: "sourcesKept a b \<Longrightarrow> sourcesKept b c \<Longrightarrow> sourcesKept a c"
  unfolding sourcesKept_def by (auto intro: sameShape_trans)

lemma existingKept_refl: "existingKept s s"
  by (simp add: existingKept_def)

lemma existingKept_trans: "existingKept a b \<Longrightarrow> existingKept b c \<Longrightarrow> existingKept a c"
  unfolding existingKept_def by auto

lemma existingKept_sourcesKept: "existingKept s s' \<Longrightarrow> sourcesKept s s'"
  by (simp add: existingKept_def sourcesKept_def sameShape_refl)

lemma idsOnly_sourcesKept: "idsOnly s s' \<Longrightarrow> sourcesKept s s'"
  by (simp add: idsOnly_def sourcesKept_def)

lemma getGraphicId_idsOnly: "idsOnly s (snd (getGraphicId E s g))"
  by (simp add: getGraphicId_def idsOnly_def sameShape_def Let_def split: option.splits)

lemma graphicIds_idsOnly: "idsOnly s (snd (graphicIds E s gs))"
proof (induction gs arbitrary: s)
  case Nil
  show ?case by (simp add: idsOnly_refl)
next
  case (Cons g gs)
  have "idsOnly s (snd (getGraphicId E s g))" by (rule getGraphicId_idsOnly)
  moreover have "idsOnly (snd (getGraphicId E s g)) (snd (graphicIds E (snd (getGraphicId E s g)) gs))"
    by (rule Cons.IH)
  ultimately show ?case
    by (auto simp: split_def Let_def intro: idsOnly_trans)
qed

lemma buildMeasurements_idsOnly: "idsOnly s (snd (buildMeasurementsForGraphics E M s gs st))"
proof (induction gs arbitrary: s)
  case Nil
  show ?case by (simp add: idsOnly_refl)
next
  case (Cons g gs)
  let ?src = "case selectionMap s g of Some x \<Rightarrow> x | None \<Rightarrow> g"
  have a: "idsOnly s (snd (getGraphicId E s ?src))" by (rule getGraphicId_idsOnly)
  have b: "idsOnly (snd (getGraphicId E s ?src))
             (snd (buildMeasurementsForGraphics E M (snd (getGraphicId E s ?src)) gs st))"
    by (rule Cons.IH)
  from idsOnly_trans [OF a b] a Cons.IH [of s] show ?case
    by (simp add: split_def Let_def split: option.splits sum.splits)
qed

lemma publishMeasurements_idsOnly: "idsOnly s (publishMeasurements ms s)"
  by (simp add: publishMeasurements_def idsOnly_def sameShape_refl)

lemma setSelectedGraphicIds_idsOnly: "idsOnly s (setSelectedGraphicIds ids s)"
  by (simp add: setSelectedGraphicIds_def idsOnly_def sameShape_refl)

lemma publishMeasurementsFromGraphics_idsOnly:
  "idsOnly s (snd (publishMeasurementsFromGraphics E M s gs))"
proof (cases "currentSettings s")
  case None
  then show ?thesis by (simp add: publishMeasurementsFromGraphics_def publishMeasurements_idsOnly)
next
  case (Some st)
  have a: "idsOnly s (snd (buildMeasurementsForGraphics E M s gs st))"
    by (rule buildMeasurements_idsOnly)
  have b: "idsOnly (snd (buildMeasurementsForGraphics E M s gs st))
             (publishMeasurements ms (snd (buildMeasurementsForGraphics E M s gs st)))" for ms
    by (rule publishMeasurements_idsOnly)
  from a idsOnly_trans [OF a b] show ?thesis using Some
    by (simp add: publishMeasurementsFromGraphics_def split_def Let_def split: sum.splits)
qed

lemma alloc_existingKept: "existingKept s (snd (alloc s g))"
  by (simp add: alloc_def existingKept_def)

lemma allocAll_existingKept: "existingKept s (snd (allocAll s gs))"
proof (induction gs arbitrary: s)
  case Nil
  show ?case by (simp add: existingKept_refl)
next
  case (Cons g gs)
  from existingKept_trans [OF alloc_existingKept [of s g] Cons.IH [of "snd (alloc s g)"]]
  show ?case by (simp add: split_def Let_def)
qed

lemma clearTempLabels_existingKept: "existingKept s (clearTempLabels s)"
  by (simp add: clearTempLabels_def existingKept_def)

lemma existingKept_field_update:
  "existingKept s s' \<Longrightarrow> existingKept s (s'\<lparr>isEditing := b\<rparr>)"
  "existingKept s s' \<Longrightarrow> existingKept s (s'\<lparr>selectionMode := m\<rparr>)"
  "existingKept s s' \<Longrightarrow> existingKept s (s'\<lparr>tempLabels := t\<rparr>)"
  "existingKept s s' \<Longrightarrow> existingKept s (s'\<lparr>labelLayer := l\<rparr>)"
  "existingKept s s' \<Longrightarrow> existingKept s (s'\<lparr>tempLabels := t, labelLayer := l\<rparr>)"
  "existingKept s s' \<Longrightarrow> existingKept s (s'\<lparr>labelLayer := l, tempLabels := t\<rparr>)"
  "existingKept s s' \<Longrightarrow> existingKept s (setSelectedGraphicIds ids s')"
  by (simp_all add: existingKept_def setSelectedGraphicIds_def)

lemma tempLabelEach_existingKept: "existingKept s (snd (tempLabelEach E M s gs st))"
proof (induction gs arbitrary: s)
  case Nil
  show ?case by (simp add: existingKept_refl)
next
  case (Cons g gs)
  show ?case
  proof (cases "geometry (heap s g)")
    case None
    then show ?thesis using Cons.IH by simp
  next
    case (Some geom)
    show ?thesis
    proof (cases "makeLabelsForGeometry E M geom st")
      case (Inl e)
      then show ?thesis using Some by (simp add: existingKept_refl)
    next
      case (Inr made)
      let ?a = "allocAll s made"
      let ?s1 = "(snd ?a)\<lparr>labelLayer := labelLayer (snd ?a) @ fst ?a, tempLabels := tempLabels (snd ?a) @ fst ?a\<rparr>"
      have "existingKept s (snd ?a)" by (rule allocAll_existingKept)
      then have "existingKept s ?s1" by (rule existingKept_field_update)
      from existingKept_trans [OF this Cons.IH [of ?s1]] Some Inr show ?thesis
        by (simp add: split_def Let_def)
    qed
  qed
qed

lemma createActive_existingKept: "existingKept s (snd (createActive E M s geom st))"
proof -
  let ?s1 = "clearTempLabels (s\<lparr>isEditing := True\<rparr>)"
  have a: "existingKept s ?s1"
    using clearTempLabels_existingKept [of "s\<lparr>isEditing := True\<rparr>"]
    by (simp add: existingKept_def)
  have b: "existingKept ?s1 (snd (allocAll ?s1 made))" for made
    by (rule allocAll_existingKept)
  from existingKept_trans [OF a b] a show ?thesis
    by (simp add: createActive_def Let_def split_def existingKept_field_update split: sum.splits)
qed

lemma updateActive_rest:
  assumes "sourcesKept s s2"
  shows "sourcesKept s (snd (case publishMeasurementsFromGraphics E M s2 gs of
           (Some e, s3) \<Rightarrow> (Some e, s3)
         | (None, s3) \<Rightarrow>
             (let (selectedIds, s4) = graphicIds E s3 gs
              in (None, setSelectedGraphicIds selectedIds s4))))"
proof -
  obtain a s3 where p: "publishMeasurementsFromGraphics E M s2 gs = (a, s3)"
    by (cases "publishMeasurementsFromGraphics E M s2 gs")
  have "sourcesKept s2 s3"
    using idsOnly_sourcesKept [OF publishMeasurementsFromGraphics_idsOnly [of s2 E M gs]] p
    by simp
  with assms have c: "sourcesKept s s3" by (rule sourcesKept_trans)
  have d: "sourcesKept s3 (snd (graphicIds E s3 gs))"
    by (rule idsOnly_sourcesKept [OF graphicIds_idsOnly])
  have e: "sourcesKept (snd (graphicIds E s3 gs))
             (setSelectedGraphicIds (fst (graphicIds E s3 gs)) (snd (graphicIds E s3 gs)))"
    by (rule idsOnly_sourcesKept [OF setSelectedGraphicIds_idsOnly])
  note cde = sourcesKept_trans [OF sourcesKept_trans [OF c d] e]
  show ?thesis
  proof (cases a)
    case None
    then show ?thesis using cde by (simp add: p split_def Let_def)
  next
    case (Some err)
    then show ?thesis using c by (simp add: p)
  qed
qed

lemma updateActive_sourcesKept: "sourcesKept s (snd (updateActive E M s gs st))"
proof -
  let ?s1 = "clearTempLabels (s\<lparr>isEditing := True\<rparr>)"
  have a: "sourcesKept s ?s1"
    using clearTempLabels_existingKept [of "s\<lparr>isEditing := True\<rparr>"]
    by (simp add: existingKept_def sourcesKept_def sameShape_refl)
  show ?thesis
  proof (cases "showDuringDraw (labelSettings st)")
    case False
    then show ?thesis
      using updateActive_rest [OF a, where E = E and M = M and gs = gs] by (simp add: updateActive_def Let_def)
  next
    case True
    obtain t s2 where tl: "tempLabelEach E M ?s1 gs st = (t, s2)"
      by (cases "tempLabelEach E M ?s1 gs st")
    have "sourcesKept ?s1 s2"
      using existingKept_sourcesKept [OF tempLabelEach_existingKept [of ?s1 E M gs st]] tl
      by simp
    with a have b: "sourcesKept s s2" by (rule sourcesKept_trans)
    show ?thesis
    proof (cases t)
      case None
      then show ?thesis
        using updateActive_rest [OF b, where E = E and M = M and gs = gs] True tl
        by (simp add: updateActive_def Let_def)
    next
      case (Some err)
      then show ?thesis using b True tl by (simp add: updateActive_def Let_def)
    qed
  qed
qed

lemma endSelectionEdit_fields:
  "labelIndex (endSelectionEdit b s) = labelIndex s"
  "drawLayer (endSelectionEdit b s) = drawLayer s"
  "textLayer (endSelectionEdit b s) = textLayer s"
  "heap (endSelectionEdit b s) = heap s"
  "selectionMap (endSelectionEdit b s) = Map.empty"
  "svmLayer (endSelectionEdit b s) = DrawLayer"
  "selectionLayer s = Some l \<Longrightarrow> selectionLayer (endSelectionEdit True s) = Some []"
  by (simp_all add: endSelectionEdit_def Let_def setSelectedGraphicIds_def publishMeasurements_def)

lemma cancel_fields:
  "labelIndex (setSelectedGraphicIds ids s) = labelIndex s"
  "drawLayer (setSelectedGraphicIds ids s) = drawLayer s"
  "textLayer (setSelectedGraphicIds ids s) = textLayer s"
  "heap (setSelectedGraphicIds ids s) = heap s"
  "labelIndex (clearTempLabels s) = labelIndex s"
  "drawLayer (clearTempLabels s) = drawLayer s"
  "textLayer (clearTempLabels s) = textLayer s"
  "heap (clearTempLabels s) = heap s"
  by (simp_all add: setSelectedGraphicIds_def clearTempLabels_def)

lemma onCreate_cancel:
  assumes "ceState ce = Cancel"
  shows "fst (onCreate E M s ce) = None
         \<and> labelIndex (snd (onCreate E M s ce)) = labelIndex s
         \<and> drawLayer (snd (onCreate E M s ce)) = drawLayer s
         \<and> textLayer (snd (onCreate E M s ce)) = textLayer s
         \<and> heap (snd (onCreate E M s ce)) = heap s"
  using assms by (simp add: onCreate_def Let_def cancel_fields split: option.splits)

lemma onUpdate_cancel:
  assumes "ueState ue = Cancel"
  shows "fst (onUpdate E M s ue) = None
         \<and> labelIndex (snd (onUpdate E M s ue)) = labelIndex s
         \<and> drawLayer (snd (onUpdate E M s ue)) = drawLayer s
         \<and> textLayer (snd (onUpdate E M s ue)) = textLayer s
         \<and> heap (snd (onUpdate E M s ue)) = heap s"
  using assms by (simp add: onUpdate_def cancel_fields split: option.splits)

lemma onCreate_not_complete:
  assumes "ceState ce \<noteq> Complete"
  shows "existingKept s (snd (onCreate E M s ce))"
proof (cases "ceState ce")
  case Start
  then show ?thesis
    by (simp add: onCreate_def Let_def existingKept_refl split: option.splits)
next
  case Active
  then show ?thesis
    by (simp add: onCreate_def Let_def existingKept_refl createActive_existingKept
        split: option.splits)
next
  case Complete
  with assms show ?thesis by simp
next
  case Cancel
  then show ?thesis
    by (simp add: existingKept_def onCreate_def Let_def clearTempLabels_def
        setSelectedGraphicIds_def split: option.splits)
qed

lemma onUpdate_not_complete:
  assumes "ueState ue \<noteq> Complete"
  shows "sourcesKept s (snd (onUpdate E M s ue))"
proof (cases "ueState ue")
  case Start
  then show ?thesis
    by (simp add: onUpdate_def sourcesKept_refl split: option.splits)
next
  case Active
  then show ?thesis
    by (simp add: onUpdate_def sourcesKept_refl updateActive_sourcesKept split: option.splits)
next
  case Complete
  with assms show ?thesis by simp
next
  case Cancel
  then show ?thesis
    by (simp add: sourcesKept_def sameShape_refl onUpdate_def clearTempLabels_def
        setSelectedGraphicIds_def split: option.splits)
qed

lemma runEvents_sourcesKept:
  assumes "\<And>s e. e \<in> set es \<Longrightarrow> sourcesKept s (snd (f s e))"
  shows "sourcesKept s (runEvents f s es)"
  using assms
proof (induction es arbitrary: s)
  case Nil
  show ?case by (simp add: runEvents_def sourcesKept_refl)
next
  case (Cons e es)
  have "sourcesKept s (snd (f s e))" by (rule Cons.prems) simp
  moreover have "sourcesKept (snd (f s e)) (runEvents f (snd (f s e)) es)"
    by (rule Cons.IH) (simp add: Cons.prems)
  ultimately have "sourcesKept s (runEvents f (snd (f s e)) es)"
    by (rule sourcesKept_trans)
  then show ?case by (simp add: runEvents_def)
qed

lemma runEvents_existingKept:
  assumes "\<And>s e. e \<in> set es \<Longrightarrow> existingKept s (snd (f s e))"
  shows "existingKept s (runEvents f s es)"
  using assms
proof (induction es arbitrary: s)
  case Nil
  show ?case by (simp add: runEvents_def existingKept_refl)
next
  case (Cons e es)
  have "existingKept s (snd (f s e))" by (rule Cons.prems) simp
  moreover have "existingKept (snd (f s e)) (runEvents f (snd (f s e)) es)"
    by (rule Cons.IH) (simp add: Cons.prems)
  ultimately have "existingKept s (runEvents f (snd (f s e)) es)"
    by (rule existingKept_trans)
  then show ?case by (simp add: runEvents_def)
qed

text \<open>
  C3 as stated fails. A line that has no identifier yet lies on the draw layer and is
  edited directly. The active phase of the update asks for the identifiers of the edited
  graphics and so attaches a fresh one to the line; the cancel phase leaves it there. The
  source shape is not as it was before the operation began, and it was changed during an
  active phase.
\<close>

theorem active_update_marks_source_counterexample:
  "drawLayer importedLineSketch = [0]
   \<and> sid (heap importedLineSketch 0) = None
   \<and> sid (heap (snd (onUpdate sampleEnv defaultUnits importedLineSketch
                      \<lparr>ueState = Active, ueGraphics = [0]\<rparr>)) 0)
       = Some ''g-1700000000000-k3j9x2''
   \<and> sid (heap (runEvents (onUpdate sampleEnv defaultUnits) importedLineSketch
                  [\<lparr>ueState = Active, ueGraphics = [0]\<rparr>, \<lparr>ueState = Cancel, ueGraphics = [0]\<rparr>]) 0)
       = Some ''g-1700000000000-k3j9x2''
   \<and> heap (runEvents (onUpdate sampleEnv defaultUnits) importedLineSketch
             [\<lparr>ueState = Active, ueGraphics = [0]\<rparr>, \<lparr>ueState = Cancel, ueGraphics = [0]\<rparr>]) 0
       \<noteq> heap importedLineSketch 0"
proof -
  have a: "sid (heap (snd (onUpdate sampleEnv defaultUnits importedLineSketch
                      \<lparr>ueState = Active, ueGraphics = [0]\<rparr>)) 0)
       = Some ''g-1700000000000-k3j9x2''"
    by (simp add: onUpdate_def updateActive_def importedLineSketch_def initialSketch_def
      blankGraphic_def Let_def clearTempLabels_def
      defaultSettings_def sourceLine_def makeLabelsForGeometry_def segmentLabels_def
      getSegments_def segmentLengths_def stackLines_def polylineCenterLines_def labelAnchor_def
      centroidLabelPoint_def alloc_def publishMeasurementsFromGraphics_def
      publishMeasurements_def getGraphicId_def setSelectedGraphicIds_def newId_def
      showNat_small showNat_big digitChar_def sampleEnv_def enumerate_eq_zip
      polylineMeasurement_def geodesicLength_def formatLength_def defaultUnits_def toolOf_def)
  have c: "heap (snd (onUpdate E M s \<lparr>ueState = Cancel, ueGraphics = gs\<rparr>)) = heap s" for E M s gs
    using onUpdate_cancel [of "\<lparr>ueState = Cancel, ueGraphics = gs\<rparr>" E M s] by simp
  have b: "sid (heap importedLineSketch 0) = None" "drawLayer importedLineSketch = [0]"
    by (simp_all add: importedLineSketch_def initialSketch_def sourceLine_def)
  have r: "sid (heap (runEvents (onUpdate sampleEnv defaultUnits) importedLineSketch
                  [\<lparr>ueState = Active, ueGraphics = [0]\<rparr>, \<lparr>ueState = Cancel, ueGraphics = [0]\<rparr>]) 0)
       = Some ''g-1700000000000-k3j9x2''"
    by (simp add: runEvents_def c a)
  have "heap (runEvents (onUpdate sampleEnv defaultUnits) importedLineSketch
             [\<lparr>ueState = Active, ueGraphics = [0]\<rparr>, \<lparr>ueState = Cancel, ueGraphics = [0]\<rparr>]) 0
       \<noteq> heap importedLineSketch 0"
  proof
    assume "heap (runEvents (onUpdate sampleEnv defaultUnits) importedLineSketch
             [\<lparr>ueState = Active, ueGraphics = [0]\<rparr>, \<lparr>ueState = Cancel, ueGraphics = [0]\<rparr>]) 0
       = heap importedLineSketch 0"
    then have "sid (heap (runEvents (onUpdate sampleEnv defaultUnits) importedLineSketch
             [\<lparr>ueState = Active, ueGraphics = [0]\<rparr>, \<lparr>ueState = Cancel, ueGraphics = [0]\<rparr>]) 0)
       = sid (heap importedLineSketch 0)"
      by (rule arg_cong)
    with r b show False by simp
  qed
  with a b r show ?thesis by simp
qed

text \<open>
  C3, amended. Handling the cancel phase of a creation, of a marquee selection and of an
  update raises no error and leaves the label index, the draw and text layers and every
  graphic exactly as they were when the cancel event arrived; so does the end of a
  joint-editing session. Over a whole operation, any run of start, active and cancel events
  of the creation handler leaves the label index and the two layers as they were when the
  operation began and every graphic that existed then wholly unchanged. Any such run of
  the update handler leaves the label index and the two layers as they were and keeps
  geometry, attributes, symbol and an identifier already attached of every graphic that
  existed when the operation began: before commit, the only change to such a graphic is
  that a missing identifier may be attached.
\<close>

theorem cancel_keeps_index_and_sources:
  "(ceState ce = Cancel \<longrightarrow>
      fst (onCreate E M s ce) = None
      \<and> labelIndex (snd (onCreate E M s ce)) = labelIndex s
      \<and> drawLayer (snd (onCreate E M s ce)) = drawLayer s
      \<and> textLayer (snd (onCreate E M s ce)) = textLayer s
      \<and> heap (snd (onCreate E M s ce)) = heap s)
   \<and> (ueState ue = Cancel \<longrightarrow>
      fst (onUpdate E M s ue) = None
      \<and> labelIndex (snd (onUpdate E M s ue)) = labelIndex s
      \<and> drawLayer (snd (onUpdate E M s ue)) = drawLayer s
      \<and> textLayer (snd (onUpdate E M s ue)) = textLayer s
      \<and> heap (snd (onUpdate E M s ue)) = heap s)
   \<and> (labelIndex (endSelectionEdit b s) = labelIndex s \<and> drawLayer (endSelectionEdit b s) = drawLayer s
      \<and> textLayer (endSelectionEdit b s) = textLayer s \<and> heap (endSelectionEdit b s) = heap s)
   \<and> ((\<forall>e\<in>set ces. ceState e \<noteq> Complete) \<longrightarrow>
      labelIndex (runEvents (onCreate E M) s ces) = labelIndex s
      \<and> drawLayer (runEvents (onCreate E M) s ces) = drawLayer s
      \<and> textLayer (runEvents (onCreate E M) s ces) = textLayer s
      \<and> (\<forall>r. r < nextRef s \<longrightarrow> heap (runEvents (onCreate E M) s ces) r = heap s r))
   \<and> ((\<forall>e\<in>set ues. ueState e \<noteq> Complete) \<longrightarrow>
      labelIndex (runEvents (onUpdate E M) s ues) = labelIndex s
      \<and> drawLayer (runEvents (onUpdate E M) s ues) = drawLayer s
      \<and> textLayer (runEvents (onUpdate E M) s ues) = textLayer s
      \<and> (\<forall>r. r < nextRef s \<longrightarrow>
            geometry (heap (runEvents (onUpdate E M) s ues) r) = geometry (heap s r)
            \<and> attributes (heap (runEvents (onUpdate E M) s ues) r) = attributes (heap s r)
            \<and> symbol (heap (runEvents (onUpdate E M) s ues) r) = symbol (heap s r)
            \<and> (\<forall>i. sid (heap s r) = Some i \<and> i \<noteq> [] \<longrightarrow>
                  sid (heap (runEvents (onUpdate E M) s ues) r) = Some i)))"
proof -
  have c: "existingKept s (runEvents (onCreate E M) s ces)" if "\<forall>e\<in>set ces. ceState e \<noteq> Complete"
    by (rule runEvents_existingKept) (simp add: that onCreate_not_complete)
  have u: "sourcesKept s (runEvents (onUpdate E M) s ues)" if "\<forall>e\<in>set ues. ueState e \<noteq> Complete"
    by (rule runEvents_sourcesKept) (simp add: that onUpdate_not_complete)
  have u': "\<forall>r. r < nextRef s \<longrightarrow>
            geometry (heap (runEvents (onUpdate E M) s ues) r) = geometry (heap s r)
            \<and> attributes (heap (runEvents (onUpdate E M) s ues) r) = attributes (heap s r)
            \<and> symbol (heap (runEvents (onUpdate E M) s ues) r) = symbol (heap s r)
            \<and> (\<forall>i. sid (heap s r) = Some i \<and> i \<noteq> [] \<longrightarrow>
                  sid (heap (runEvents (onUpdate E M) s ues) r) = Some i)"
    if "\<forall>e\<in>set ues. ueState e \<noteq> Complete"
    using u [OF that] by (auto simp: sourcesKept_def sameShape_def)
  show ?thesis
    using c u u'
    by (simp add: onCreate_cancel onUpdate_cancel endSelectionEdit_fields sourcesKept_def
        existingKept_def)
qed


section \<open>The concrete sessions\<close>

lemma session_fields:
  "selectionLayer sessionSketch = Some [2]"
  "selectionMap sessionSketch = [2 \<mapsto> 0]"
  "svmLayer sessionSketch = SelectionLayer"
  "currentSettings sessionSketch = Some defaultSettings"
  "drawLayer sessionSketch = [0]"
  "heap sessionSketch 0 = sourceLine"
  "heap sessionSketch 2 = sourceLine\<lparr>sid := None\<rparr>"
  "selectedIdsOut sessionSketch = [[''g-1699999999999-abc123'']]"
  "nextRef sessionSketch = 3"
  "selectionMode sessionSketch = None"
  "tempLabels sessionSketch = []"
  "ticks sessionSketch = 0"
  "labelIndex sessionSketch = Map.empty"
  "textLayer sessionSketch = []"
  by (simp_all add: sessionSketch_def onCreate_def drawnSketch_def initialSketch_def
      createSelectionComplete_def selectionTry_def selectIntersecting_def intersectsMarquee_def
      Let_def sourceLine_def marquee_def
      blankGraphic_def sampleEnv_def prepareSelectionLayer_def cloneGraphic_def alloc_def
      publishMeasurementsFromGraphics_def publishMeasurements_def getGraphicId_def
      setSelectedGraphicIds_def clearTempLabels_def List.map_filter_def defaultSettings_def
      polylineMeasurement_def geodesicLength_def segmentLengths_def formatLength_def
      defaultUnits_def toolOf_def)


theorem cancel_keeps_index_and_sources_witness:
  "heap (snd (onCreate sampleEnv defaultUnits drawnSketch \<lparr>ceState = Cancel, ceGraphic = Some 1\<rparr>))
     = heap drawnSketch
   \<and> drawLayer (snd (onCreate sampleEnv defaultUnits drawnSketch \<lparr>ceState = Cancel, ceGraphic = Some 1\<rparr>))
     = [0, 1]
   \<and> labelIndex (snd (onUpdate sampleEnv defaultUnits editedSketch \<lparr>ueState = Cancel, ueGraphics = [2]\<rparr>))
     = Map.empty
   \<and> heap (runEvents (onCreate sampleEnv defaultUnits) rectangleSketch
        [\<lparr>ceState = Active, ceGraphic = Some 0\<rparr>, \<lparr>ceState = Cancel, ceGraphic = Some 0\<rparr>]) 0
     = rectangleShape
   \<and> geometry (heap (runEvents (onUpdate sampleEnv defaultUnits) editedSketch
        [\<lparr>ueState = Active, ueGraphics = [2]\<rparr>, \<lparr>ueState = Cancel, ueGraphics = [2]\<rparr>]) 0)
     = Some (Polyline [[(0, 0), (10, 0)]])
   \<and> sid (heap (runEvents (onUpdate sampleEnv defaultUnits) editedSketch
        [\<lparr>ueState = Active, ueGraphics = [2]\<rparr>, \<lparr>ueState = Cancel, ueGraphics = [2]\<rparr>]) 0)
     = Some ''g-1699999999999-abc123''
   \<and> drawLayer (runEvents (onUpdate sampleEnv defaultUnits) editedSketch
        [\<lparr>ueState = Active, ueGraphics = [2]\<rparr>, \<lparr>ueState = Cancel, ueGraphics = [2]\<rparr>])
     = [0]"
proof -
  have d: "drawLayer drawnSketch = [0, 1]"
    by (simp add: drawnSketch_def)
  have e: "labelIndex editedSketch = Map.empty" "drawLayer editedSketch = [0]"
    "nextRef editedSketch = 3"
    "geometry (heap editedSketch 0) = Some (Polyline [[(0, 0), (10, 0)]])"
    "sid (heap editedSketch 0) = Some ''g-1699999999999-abc123''"
    by (simp_all add: editedSketch_def session_fields sourceLine_def)
  have r: "nextRef rectangleSketch = 1" "heap rectangleSketch 0 = rectangleShape"
    by (simp_all add: rectangleSketch_def)
  have "(0::nat) < 1" "(0::nat) < 3"
    by simp_all
  then show ?thesis
    using cancel_keeps_index_and_sources
        [where ce = "\<lparr>ceState = Cancel, ceGraphic = Some 1\<rparr>" and s = drawnSketch
           and E = sampleEnv and M = defaultUnits
           and ue = "\<lparr>ueState = Cancel, ueGraphics = [2]\<rparr>" and b = True
           and ces = "[]" and ues = "[]"]
      cancel_keeps_index_and_sources
        [where ce = "\<lparr>ceState = Cancel, ceGraphic = Some 1\<rparr>" and s = editedSketch
           and E = sampleEnv and M = defaultUnits
           and ue = "\<lparr>ueState = Cancel, ueGraphics = [2]\<rparr>" and b = True
           and ces = "[]"
           and ues = "[\<lparr>ueState = Active, ueGraphics = [2]\<rparr>, \<lparr>ueState = Cancel, ueGraphics = [2]\<rparr>]"]
      cancel_keeps_index_and_sources
        [where ce = "\<lparr>ceState = Cancel, ceGraphic = Some 1\<rparr>" and s = rectangleSketch
           and E = sampleEnv and M = defaultUnits
           and ue = "\<lparr>ueState = Cancel, ueGraphics = [2]\<rparr>" and b = True
           and ces = "[\<lparr>ceState = Active, ceGraphic = Some 0\<rparr>, \<lparr>ceState = Cancel, ceGraphic = Some 0\<rparr>]"
           and ues = "[]"]
    by (simp add: d e r)
qed


section \<open>Committing a joint-editing session\<close>



lemma commitGeometry_attrs:
  "symbol (heap (commitGeometry s gs) r) = symbol (heap s r)
   \<and> attributes (heap (commitGeometry s gs) r) = attributes (heap s r)
   \<and> sid (heap (commitGeometry s gs) r) = sid (heap s r)"
  by (induction gs arbitrary: s) (simp_all split: option.splits)




text \<open>
  The clone map of a session is one-to-one and no clone is a source: cloning distinct,
  existing sources into fresh graphics keeps both properties, and the marquee selection
  starts from an empty map and the distinct graphics of the draw and text layers.
\<close>

lemma cloneInto_clone_map:
  assumes "inj_on (selectionMap s) (dom (selectionMap s))"
    and "dom (selectionMap s) \<inter> ran (selectionMap s) = {}"
    and "\<forall>r\<in>dom (selectionMap s) \<union> ran (selectionMap s). r < nextRef s"
    and "distinct srcs"
    and "\<forall>r\<in>set srcs. r < nextRef s"
    and "set srcs \<inter> ran (selectionMap s) = {}"
    and "set srcs \<inter> dom (selectionMap s) = {}"
  shows "inj_on (selectionMap (cloneInto s srcs)) (dom (selectionMap (cloneInto s srcs)))
         \<and> dom (selectionMap (cloneInto s srcs)) \<inter> ran (selectionMap (cloneInto s srcs)) = {}"
  using assms
proof (induction srcs arbitrary: s)
  case Nil
  then show ?case by simp
next
  case (Cons src srcs)
  define n where "n = nextRef s"
  define m where "m = selectionMap s"
  define s2 where "s2 = (snd (cloneGraphic s src))
      \<lparr>selectionLayer := Some ((case selectionLayer (snd (cloneGraphic s src)) of Some l \<Rightarrow> l | None \<Rightarrow> []) @ [n]),
        selectionMap := m(n \<mapsto> src)\<rparr>"
  have step: "cloneInto s (src # srcs) = cloneInto s2 srcs"
    by (simp add: s2_def n_def m_def cloneGraphic_def alloc_def Let_def)
  have map2: "selectionMap s2 = m(n \<mapsto> src)" and next2: "nextRef s2 = Suc n"
    by (simp_all add: s2_def cloneGraphic_def alloc_def n_def)
  have ndom: "n \<notin> dom m" and nran: "n \<notin> ran m"
    using Cons.prems(3) by (auto simp: n_def m_def)
  have src_lt: "src < n" and src_ran: "src \<notin> ran m" and src_dom: "src \<notin> dom m"
    using Cons.prems(5,6,7) by (auto simp: n_def m_def)
  have dom2: "dom (selectionMap s2) = insert n (dom m)"
    by (simp add: map2)
  have ran2: "ran (selectionMap s2) = insert src (ran m)"
    using ndom by (simp add: map2 domIff)
  have inj2: "inj_on (selectionMap s2) (dom (selectionMap s2))"
  proof (rule inj_onI)
    fix a b
    assume a: "a \<in> dom (selectionMap s2)" and b: "b \<in> dom (selectionMap s2)"
      and eq: "selectionMap s2 a = selectionMap s2 b"
    show "a = b"
    proof (cases "a = n")
      case True
      show ?thesis
      proof (rule ccontr)
        assume "a \<noteq> b"
        then have "m b = Some src" using eq True by (simp add: map2)
        then have "src \<in> ran m" by (auto simp: ran_def)
        with src_ran show False by simp
      qed
    next
      case False
      show ?thesis
      proof (cases "b = n")
        case True
        have "m a = Some src" using eq True False by (simp add: map2)
        then have "src \<in> ran m" by (auto simp: ran_def)
        with src_ran show ?thesis by simp
      next
        case bn: False
        have "m a = m b" using eq False bn by (simp add: map2)
        moreover have "a \<in> dom m" "b \<in> dom m" using a b False bn by (simp_all add: dom2)
        ultimately show ?thesis using Cons.prems(1) by (simp add: inj_on_def m_def)
      qed
    qed
  qed
  have disj2: "dom (selectionMap s2) \<inter> ran (selectionMap s2) = {}"
    using Cons.prems(2) nran src_dom src_lt by (auto simp: dom2 ran2 m_def)
  have bound2: "\<forall>r\<in>dom (selectionMap s2) \<union> ran (selectionMap s2). r < nextRef s2"
    using Cons.prems(3) src_lt by (auto simp: dom2 ran2 next2 m_def n_def less_Suc_eq)
  have d2: "distinct srcs" using Cons.prems(4) by simp
  have lt2: "\<forall>r\<in>set srcs. r < nextRef s2"
    using Cons.prems(5) by (simp add: next2 n_def less_Suc_eq)
  have sr2: "set srcs \<inter> ran (selectionMap s2) = {}"
    using Cons.prems(4,6) by (auto simp: ran2 m_def)
  have sd2: "set srcs \<inter> dom (selectionMap s2) = {}"
    using Cons.prems(5,7) by (auto simp: dom2 m_def n_def)
  show ?case
    unfolding step by (rule Cons.IH [OF inj2 disj2 bound2 d2 lt2 sr2 sd2])
qed



lemma filterE_sub:
  "filterE p xs = Inr ys \<Longrightarrow> set ys \<subseteq> set xs \<and> (distinct xs \<longrightarrow> distinct ys)"
proof (induction xs arbitrary: ys)
  case Nil
  then show ?case by simp
next
  case (Cons x xs)
  from Cons.prems obtain b zs where zs: "filterE p xs = Inr zs"
    and ys: "ys = (if b then x # zs else zs)"
    by (auto simp: bindE_eq_Inr)
  from Cons.IH [OF zs] show ?case by (auto simp: ys)
qed

lemma selectIntersecting_sub:
  assumes "selectIntersecting E s geom = Inr selected"
  shows "set selected \<subseteq> set (drawLayer s @ textLayer s)
         \<and> (distinct (drawLayer s @ textLayer s) \<longrightarrow> distinct selected)"
proof -
  from assms obtain a b where a: "filterE (intersectsMarquee E s geom) (drawLayer s) = Inr a"
    and b: "filterE (intersectsMarquee E s geom) (textLayer s) = Inr b"
    and sel: "selected = a @ b"
    by (auto simp: selectIntersecting_def bindE_eq_Inr)
  from filterE_sub [OF a] filterE_sub [OF b] show ?thesis
    by (auto simp: sel)
qed

lemma marquee_session_clone_map:
  assumes dist: "distinct (drawLayer s @ textLayer s)"
    and alloc: "\<forall>r\<in>set (drawLayer s @ textLayer s). r < nextRef s"
    and sel: "selectIntersecting E
                (case ceGraphic evt of Some g \<Rightarrow> s\<lparr>drawLayer := remove1 g (drawLayer s)\<rparr> | None \<Rightarrow> s)
                geom = Inr selected"
    and hit: "selected \<noteq> []"
  shows "inj_on (selectionMap (snd (createSelectionComplete E M s evt geom)))
           (dom (selectionMap (snd (createSelectionComplete E M s evt geom))))
       \<and> dom (selectionMap (snd (createSelectionComplete E M s evt geom)))
           \<inter> ran (selectionMap (snd (createSelectionComplete E M s evt geom))) = {}
       \<and> svmLayer (snd (createSelectionComplete E M s evt geom)) = SelectionLayer"
proof -
  define s1 where "s1 = (case ceGraphic evt of Some g \<Rightarrow> s\<lparr>drawLayer := remove1 g (drawLayer s)\<rparr> | None \<Rightarrow> s)"
  define s2 where "s2 = prepareSelectionLayer True s1"
  define s3 where "s3 = cloneInto s2 selected"
  define s4 where "s4 = s3\<lparr>svmLayer := SelectionLayer\<rparr>"
  define toEdit where "toEdit = (case selectionLayer s4 of Some l \<Rightarrow> l | None \<Rightarrow> [])"
  obtain thrown s5 where p: "publishMeasurementsFromGraphics E M s4 toEdit = (thrown, s5)"
    by (cases "publishMeasurementsFromGraphics E M s4 toEdit")
  define s6 where "s6 = snd (graphicIds E s5 (List.map_filter (selectionMap s5) toEdit))"
  have sel1: "selectIntersecting E s1 geom = Inr selected"
    using sel by (simp add: s1_def)
  have d1: "distinct (drawLayer s1 @ textLayer s1)"
    and sub1: "set (drawLayer s1 @ textLayer s1) \<subseteq> set (drawLayer s @ textLayer s)"
    and n1: "nextRef s1 = nextRef s"
    using dist by (auto simp: s1_def split: option.splits dest: notin_set_remove1)
  have dsel: "distinct selected"
    using selectIntersecting_sub [OF sel1] d1 by simp
  have lsel: "\<forall>r\<in>set selected. r < nextRef s2"
    using selectIntersecting_sub [OF sel1] sub1 alloc
    by (auto simp: s2_def prepareSelectionLayer_def n1)
  have m2: "selectionMap s2 = Map.empty"
    by (simp add: s2_def prepareSelectionLayer_def)
  have inv3: "inj_on (selectionMap s3) (dom (selectionMap s3))
              \<and> dom (selectionMap s3) \<inter> ran (selectionMap s3) = {}"
    unfolding s3_def
    by (rule cloneInto_clone_map) (simp_all add: m2 dsel lsel)
  have i5: "idsOnly s4 s5"
    using publishMeasurementsFromGraphics_idsOnly [of s4 E M toEdit] p by simp
  moreover have "idsOnly s5 s6" unfolding s6_def by (rule graphicIds_idsOnly)
  ultimately have "idsOnly s4 s6" by (rule idsOnly_trans)
  then have m6: "selectionMap s6 = selectionMap s3" and l6: "svmLayer s6 = SelectionLayer"
    by (simp_all add: idsOnly_def s4_def)
  have m5: "selectionMap s5 = selectionMap s3" and l5: "svmLayer s5 = SelectionLayer"
    using i5 by (simp_all add: idsOnly_def s4_def)
  have run: "snd (selectionTry E M s evt geom)
      = (case thrown of
           Some e \<Rightarrow> s5
         | None \<Rightarrow> setSelectedGraphicIds
                     (fst (graphicIds E s5 (List.map_filter (selectionMap s5) toEdit))) s6)"
    using hit sel1 p
    unfolding s6_def toEdit_def s4_def s3_def s2_def s1_def
    by (simp add: selectionTry_def Let_def split_def split: option.splits)
  have "selectionMap (snd (selectionTry E M s evt geom)) = selectionMap s3"
    and "svmLayer (snd (selectionTry E M s evt geom)) = SelectionLayer"
    by (simp_all add: run setSelectedGraphicIds_def m6 l6 m5 l5 split: option.splits)
  then have "selectionMap (snd (createSelectionComplete E M s evt geom)) = selectionMap s3"
    and "svmLayer (snd (createSelectionComplete E M s evt geom)) = SelectionLayer"
    by (simp_all add: createSelectionComplete_def split_def clearTempLabels_def Let_def)
  with inv3 show ?thesis by simp
qed

text \<open>The click on a text graphic starts a session with the same two properties.\<close>

lemma click_session_clone_map:
  assumes "\<not> textClickHandler s" and "selectionMode s = None"
    and "List.find (\<lambda>g. g \<in> set (textLayer s)) hits = Some src"
    and "src < nextRef s"
  shows "inj_on (selectionMap (onViewClick E M s hits)) (dom (selectionMap (onViewClick E M s hits)))
       \<and> dom (selectionMap (onViewClick E M s hits)) \<inter> ran (selectionMap (onViewClick E M s hits)) = {}
       \<and> selectionMap (onViewClick E M s hits) = [nextRef s \<mapsto> src]
       \<and> svmLayer (onViewClick E M s hits) = SelectionLayer"
proof -
  define s1 where "s1 = prepareSelectionLayer True s"
  define s4 where "s4 = (snd (cloneGraphic s1 src))
      \<lparr>selectionLayer := Some ((case selectionLayer (snd (cloneGraphic s1 src)) of Some l \<Rightarrow> l | None \<Rightarrow> [])
                                @ [fst (cloneGraphic s1 src)]),
        selectionMap := (selectionMap (snd (cloneGraphic s1 src)))(fst (cloneGraphic s1 src) \<mapsto> src),
        svmLayer := SelectionLayer\<rparr>"
  have run: "onViewClick E M s hits = snd (publishMeasurementsFromGraphics E M s4 [fst (cloneGraphic s1 src)])"
    using assms(1-3) unfolding s4_def s1_def
    by (simp add: onViewClick_def Let_def split_def)
  have m4: "selectionMap s4 = [nextRef s \<mapsto> src]" and l4: "svmLayer s4 = SelectionLayer"
    by (simp_all add: s4_def s1_def cloneGraphic_def alloc_def prepareSelectionLayer_def Let_def)
  have "idsOnly s4 (onViewClick E M s hits)"
    unfolding run by (rule publishMeasurementsFromGraphics_idsOnly)
  then have "selectionMap (onViewClick E M s hits) = [nextRef s \<mapsto> src]"
    and "svmLayer (onViewClick E M s hits) = SelectionLayer"
    by (simp_all add: idsOnly_def m4 l4)
  then show ?thesis using assms(4) by simp
qed











section \<open>Identifiers published while a clone is edited\<close>

text \<open>
  C4 fails at the active phase of an update in a joint-editing session. Graphic 2 is the
  clone of graphic 0, whose identifier the marquee selection has published. The active
  phase calls \<open>getGraphicId\<close> on the clone itself: the clone receives an identifier of its
  own, and that identifier, not the source's, is published as the selection.
\<close>

theorem update_active_mints_clone_id:
  "selectionMap sessionSketch 2 = Some 0
   \<and> sid (heap sessionSketch 0) = Some ''g-1699999999999-abc123''
   \<and> sid (heap sessionSketch 2) = None
   \<and> fst (onUpdate sampleEnv defaultUnits sessionSketch \<lparr>ueState = Active, ueGraphics = [2]\<rparr>) = None
   \<and> selectedIdsOut (snd (onUpdate sampleEnv defaultUnits sessionSketch \<lparr>ueState = Active, ueGraphics = [2]\<rparr>))
     = [[''g-1699999999999-abc123''], [''g-1700000000000-k3j9x2'']]
   \<and> sid (heap (snd (onUpdate sampleEnv defaultUnits sessionSketch \<lparr>ueState = Active, ueGraphics = [2]\<rparr>)) 2)
     = Some ''g-1700000000000-k3j9x2''"
  by (simp add: onUpdate_def updateActive_def session_fields Let_def clearTempLabels_def
      defaultSettings_def sourceLine_def makeLabelsForGeometry_def segmentLabels_def
      getSegments_def segmentLengths_def stackLines_def polylineCenterLines_def labelAnchor_def
      centroidLabelPoint_def alloc_def publishMeasurementsFromGraphics_def
      publishMeasurements_def getGraphicId_def setSelectedGraphicIds_def newId_def
      showNat_small showNat_big digitChar_def sampleEnv_def enumerate_eq_zip
      polylineMeasurement_def geodesicLength_def formatLength_def defaultUnits_def toolOf_def)


section \<open>The radius line\<close>

text \<open>
  C6 fails for a polygon drawn with the rectangle tool under the form's initial settings:
  the completed graphic carries the tool tag \<open>rectangle\<close>, and its persisted labels (four
  segment labels, title, area, perimeter, radius, standalone title) contain the line
  \<open>R = 3.00 m\<close>. \<open>makeLabelsForGeometry\<close> tests \<open>showCircleRadius\<close> only.
\<close>

theorem rectangle_gets_radius_line:
  "fst (onCreate sampleEnv defaultUnits rectangleSketch \<lparr>ceState = Complete, ceGraphic = Some 0\<rparr>) = None
   \<and> toolOf (heap (snd (onCreate sampleEnv defaultUnits rectangleSketch \<lparr>ceState = Complete, ceGraphic = Some 0\<rparr>)) 0)
     = Some ''rectangle''
   \<and> labelIndex (snd (onCreate sampleEnv defaultUnits rectangleSketch \<lparr>ceState = Complete, ceGraphic = Some 0\<rparr>))
        ''g-1700000000000-k3j9x2'' = Some [1, 2, 3, 4, 5, 6, 7, 8, 9]
   \<and> labelText (heap (snd (onCreate sampleEnv defaultUnits rectangleSketch \<lparr>ceState = Complete, ceGraphic = Some 0\<rparr>)) 8)
     = ''R = 3.00 m''"
  by (simp add: onCreate_def createComplete_def persistLabels_def rectangleSketch_def
      rectangleShape_def initialSketch_def blankGraphic_def Let_def clearTempLabels_def
      defaultSettings_def makeLabelsForGeometry_def segmentLabels_def
      getSegments_def segmentLengths_def stackLines_def polygonCenterLines_def labelAnchor_def
      centroidLabelPoint_def alloc_def getGraphicId_def newId_def removePersistedLabelsFor_def
      removeEach_def placeTitleLabel_def titleBasePoint_def titleGraphic_def titleOf_def
      showNat_small showNat_big digitChar_def sampleEnv_def enumerate_eq_zip toolOf_def
      labelText_def addText_def formatLength_def formatArea_def radiusFromPolygon_def
      geodesicArea_def geodesicPerimeter_def geodesicLength_def defaultUnits_def)

end
